theory Spec2Isabelle
  imports Main "HOL-Library.Word"
begin

section \<open>The review service: data model\<close>

text \<open>
  The service is a gRPC handler (\<open>ReviewService\<close>) over a storage port (the Go interface
  \<open>repository.Repository\<close>) with one adapter (\<open>PostgresRepository\<close>, over a gorm handle).

  Go's machine integers are words. \<open>int64\<close> and \<open>int32\<close> are the fields of the wire
  messages; \<open>uint\<close> and \<open>int\<close> are the fields of the persisted row, taken at their
  width on a 64-bit target. A word carries no sign: a signed type is read with \<open>sint\<close>,
  an unsigned one with \<open>uint\<close>, and a Go conversion \<open>T(x)\<close> keeps the value of \<open>x\<close>
  modulo the width of \<open>T\<close>.
\<close>

type_synonym int64 = "64 word"
type_synonym int32 = "32 word"
type_synonym go_uint = "64 word"
type_synonym go_int = "64 word"

definition uint_of_int64 :: "int64 \<Rightarrow> go_uint" where
  "uint_of_int64 x = word_of_int (sint x)"

definition int64_of_uint :: "go_uint \<Rightarrow> int64" where
  "int64_of_uint x = word_of_int (uint x)"

definition int_of_int32 :: "int32 \<Rightarrow> go_int" where
  "int_of_int32 x = word_of_int (sint x)"

definition int32_of_int :: "go_int \<Rightarrow> int32" where
  "int32_of_int x = word_of_int (sint x)"

subsection \<open>Errors and outcomes\<close>

text \<open>
  The error values this program tells apart: its own sentinel \<open>ErrReviewNotFound\<close>,
  gorm's \<open>ErrRecordNotFound\<close>, the two errors of a finished context, any other error
  (by its message), and an error wrapping another one. \<open>errors_Is\<close> is \<open>errors.Is\<close>:
  it follows the chain of wrapped errors.
\<close>

datatype go_error =
    ErrReviewNotFound
  | ErrRecordNotFound
  | context_Canceled
  | context_DeadlineExceeded
  | Other string
  | Wrap string go_error

fun errors_Is :: "go_error \<Rightarrow> go_error \<Rightarrow> bool" where
  "errors_Is (Wrap m e) target = (Wrap m e = target \<or> errors_Is e target)"
| "errors_Is e target = (e = target)"

fun error_Error :: "go_error \<Rightarrow> string" where
  "error_Error ErrReviewNotFound = ''review not found''"
| "error_Error ErrRecordNotFound = ''record not found''"
| "error_Error context_Canceled = ''context canceled''"
| "error_Error context_DeadlineExceeded = ''context deadline exceeded''"
| "error_Error (Other m) = m"
| "error_Error (Wrap m e) = m"

text \<open>The gRPC status codes the handler returns, and a status: a code with a message.\<close>

datatype codes = Canceled | InvalidArgument | NotFound | Internal

datatype status = Status (code: codes) (message: string)

definition status_Error :: "codes \<Rightarrow> string \<Rightarrow> status" where
  "status_Error c msg = Status c msg"

text \<open>\<open>status.Errorf(c, prefix + "%v", err)\<close>: the error is rendered by its \<open>Error()\<close>.\<close>

definition status_Errorf :: "codes \<Rightarrow> string \<Rightarrow> go_error \<Rightarrow> status" where
  "status_Errorf c prefix err = Status c (prefix @ error_Error err)"

text \<open>
  A context is read through \<open>ctx.Err()\<close> only: \<open>None\<close> while it is live, the error once
  it is cancelled or past its deadline (\<open>ctx.Done()\<close> is closed exactly then).
\<close>

datatype Context = Context (ctx_Err: "go_error option")

subsection \<open>Records\<close>

text \<open>
  \<open>time.Time\<close> belongs to Go's library: the model is polymorphic in it (\<open>'t\<close>) and takes
  what the program uses of the \<open>time\<close> package as a parameter: the zero value of a
  \<open>time.Time\<close> and \<open>Format\<close>.
\<close>

record 't time_pkg =
  time_zero :: 't
  time_Format :: "'t \<Rightarrow> string \<Rightarrow> string"

definition RFC3339 :: string where
  "RFC3339 = ''2006-01-02T15:04:05Z07:00''"

record 't GormReview =
  ID :: go_uint
  MediaID :: go_uint
  UserID :: go_uint
  Content :: string
  Rating :: go_int
  CreatedAt :: 't
  UpdatedAt :: 't

text \<open>The wire message \<open>review.Review\<close> and the requests, with the fields the handler reads.\<close>

record Review =
  proto_Id :: int64
  proto_MediaId :: int64
  proto_UserId :: int64
  proto_Content :: string
  proto_Rating :: int32
  proto_CreatedAt :: string
  proto_UpdatedAt :: string

record CreateReviewRequest =
  create_MediaId :: int64
  create_UserId :: int64
  create_Content :: string
  create_Rating :: int32

record UpdateReviewRequest =
  update_Id :: int64
  update_Content :: string
  update_Rating :: int32

datatype GetReviewRequest = GetReviewRequest (get_Id: int64)
datatype DeleteReviewRequest = DeleteReviewRequest (delete_Id: int64)
datatype GetAllReviewsRequest = GetAllReviewsRequest
datatype GetByRatingRequest = GetByRatingRequest (byRating_Rating: int32)
datatype GetByUserRequest = GetByUserRequest (byUser_UserId: int64)
datatype GetByMediaRequest = GetByMediaRequest (byMedia_MediaId: int64)

datatype CreateReviewResponse = CreateReviewResponse Review
datatype GetReviewResponse = GetReviewResponse Review
datatype UpdateReviewResponse = UpdateReviewResponse Review
datatype DeleteReviewResponse = DeleteReviewResponse (Success: bool)
datatype GetAllReviewsResponse = GetAllReviewsResponse "Review list"
datatype GetByRatingResponse = GetByRatingResponse "Review list"
datatype GetByUserResponse = GetByUserResponse "Review list"
datatype GetByMediaResponse = GetByMediaResponse "Review list"

section \<open>The storage port\<close>

text \<open>
  The interface \<open>Repository\<close>, over a storage state \<open>'s\<close> that only the port reads and
  writes. \<open>Create\<close> and \<open>Update\<close> take a pointer to the record and may write to it (gorm
  assigns the id and the timestamps), so they return the record as they leave it.
  A method returning \<open>(value, error)\<close> returns a sum, \<open>Inl\<close> the error: it returns a value
  exactly when it returns no error, as the adapter does.
\<close>

record ('s, 't) Repository =
  repo_Create :: "Context \<Rightarrow> 't GormReview \<Rightarrow> 's \<Rightarrow> (go_error option \<times> 't GormReview) \<times> 's"
  repo_GetByID :: "Context \<Rightarrow> go_uint \<Rightarrow> 's \<Rightarrow> (go_error + 't GormReview) \<times> 's"
  repo_Update :: "Context \<Rightarrow> 't GormReview \<Rightarrow> 's \<Rightarrow> (go_error option \<times> 't GormReview) \<times> 's"
  repo_Delete :: "Context \<Rightarrow> go_uint \<Rightarrow> 's \<Rightarrow> go_error option \<times> 's"
  repo_GetAll :: "Context \<Rightarrow> 's \<Rightarrow> (go_error + 't GormReview list) \<times> 's"
  repo_GetByRating :: "Context \<Rightarrow> go_int \<Rightarrow> 's \<Rightarrow> (go_error + 't GormReview list) \<times> 's"
  repo_GetByUser :: "Context \<Rightarrow> go_uint \<Rightarrow> 's \<Rightarrow> (go_error + 't GormReview list) \<times> 's"
  repo_GetByMedia :: "Context \<Rightarrow> go_uint \<Rightarrow> 's \<Rightarrow> (go_error + 't GormReview list) \<times> 's"

text \<open>
  What the handler runs in: the storage state and the list of the port's methods it has
  called so far, oldest first, with their arguments. The list is how "no storage call" and
  "the existence check comes first" are stated.
\<close>

datatype 't repo_call =
    CallCreate "'t GormReview"
  | CallGetByID go_uint
  | CallUpdate "'t GormReview"
  | CallDelete go_uint
  | CallGetAll
  | CallGetByRating go_int
  | CallGetByUser go_uint
  | CallGetByMedia go_uint

record ('s, 't) world =
  store :: 's
  calls :: "'t repo_call list"

definition call_Create ::
  "('s, 't) Repository \<Rightarrow> Context \<Rightarrow> 't GormReview \<Rightarrow> ('s, 't) world
    \<Rightarrow> (go_error option \<times> 't GormReview) \<times> ('s, 't) world" where
  "call_Create r ctx rv w =
     (case repo_Create r ctx rv (store w) of
        (res, s') \<Rightarrow> (res, \<lparr>store = s', calls = calls w @ [CallCreate rv]\<rparr>))"

definition call_GetByID ::
  "('s, 't) Repository \<Rightarrow> Context \<Rightarrow> go_uint \<Rightarrow> ('s, 't) world
    \<Rightarrow> (go_error + 't GormReview) \<times> ('s, 't) world" where
  "call_GetByID r ctx i w =
     (case repo_GetByID r ctx i (store w) of
        (res, s') \<Rightarrow> (res, \<lparr>store = s', calls = calls w @ [CallGetByID i]\<rparr>))"

definition call_Update ::
  "('s, 't) Repository \<Rightarrow> Context \<Rightarrow> 't GormReview \<Rightarrow> ('s, 't) world
    \<Rightarrow> (go_error option \<times> 't GormReview) \<times> ('s, 't) world" where
  "call_Update r ctx rv w =
     (case repo_Update r ctx rv (store w) of
        (res, s') \<Rightarrow> (res, \<lparr>store = s', calls = calls w @ [CallUpdate rv]\<rparr>))"

definition call_Delete ::
  "('s, 't) Repository \<Rightarrow> Context \<Rightarrow> go_uint \<Rightarrow> ('s, 't) world
    \<Rightarrow> go_error option \<times> ('s, 't) world" where
  "call_Delete r ctx i w =
     (case repo_Delete r ctx i (store w) of
        (res, s') \<Rightarrow> (res, \<lparr>store = s', calls = calls w @ [CallDelete i]\<rparr>))"

definition call_GetAll ::
  "('s, 't) Repository \<Rightarrow> Context \<Rightarrow> ('s, 't) world
    \<Rightarrow> (go_error + 't GormReview list) \<times> ('s, 't) world" where
  "call_GetAll r ctx w =
     (case repo_GetAll r ctx (store w) of
        (res, s') \<Rightarrow> (res, \<lparr>store = s', calls = calls w @ [CallGetAll]\<rparr>))"

definition call_GetByRating ::
  "('s, 't) Repository \<Rightarrow> Context \<Rightarrow> go_int \<Rightarrow> ('s, 't) world
    \<Rightarrow> (go_error + 't GormReview list) \<times> ('s, 't) world" where
  "call_GetByRating r ctx n w =
     (case repo_GetByRating r ctx n (store w) of
        (res, s') \<Rightarrow> (res, \<lparr>store = s', calls = calls w @ [CallGetByRating n]\<rparr>))"

definition call_GetByUser ::
  "('s, 't) Repository \<Rightarrow> Context \<Rightarrow> go_uint \<Rightarrow> ('s, 't) world
    \<Rightarrow> (go_error + 't GormReview list) \<times> ('s, 't) world" where
  "call_GetByUser r ctx u w =
     (case repo_GetByUser r ctx u (store w) of
        (res, s') \<Rightarrow> (res, \<lparr>store = s', calls = calls w @ [CallGetByUser u]\<rparr>))"

definition call_GetByMedia ::
  "('s, 't) Repository \<Rightarrow> Context \<Rightarrow> go_uint \<Rightarrow> ('s, 't) world
    \<Rightarrow> (go_error + 't GormReview list) \<times> ('s, 't) world" where
  "call_GetByMedia r ctx m w =
     (case repo_GetByMedia r ctx m (store w) of
        (res, s') \<Rightarrow> (res, \<lparr>store = s', calls = calls w @ [CallGetByMedia m]\<rparr>))"

section \<open>The adapter: PostgresRepository\<close>

text \<open>
  The adapter holds a gorm handle. gorm is a library: the model takes the five methods the
  adapter calls as a parameter, over the database state \<open>'d\<close>. \<open>First\<close> and \<open>Find\<close> fill the
  variable they are given, or fail; \<open>Create\<close> and \<open>Save\<close> may write to the record they are
  given. A query \<open>Where(q, arg)\<close> is the pair of its text and its argument. The adapter
  passes no context to gorm.
\<close>

datatype sql_arg = ArgInt go_int | ArgUint go_uint

record ('d, 't) gorm_DB =
  db_Create :: "'t GormReview \<Rightarrow> 'd \<Rightarrow> (go_error option \<times> 't GormReview) \<times> 'd"
  db_First :: "go_uint \<Rightarrow> 'd \<Rightarrow> (go_error + 't GormReview) \<times> 'd"
  db_Save :: "'t GormReview \<Rightarrow> 'd \<Rightarrow> (go_error option \<times> 't GormReview) \<times> 'd"
  db_Delete :: "go_uint \<Rightarrow> 'd \<Rightarrow> go_error option \<times> 'd"
  db_Find :: "(string \<times> sql_arg) list \<Rightarrow> 'd \<Rightarrow> (go_error + 't GormReview list) \<times> 'd"

record ('d, 't) PostgresRepository =
  db :: "('d, 't) gorm_DB"

definition PostgresRepository_Create ::
  "('d, 't) PostgresRepository \<Rightarrow> Context \<Rightarrow> 't GormReview \<Rightarrow> 'd
    \<Rightarrow> (go_error option \<times> 't GormReview) \<times> 'd" where
  "PostgresRepository_Create r ctx review d =
     (case ctx_Err ctx of
        Some e \<Rightarrow> ((Some e, review), d)
      | None \<Rightarrow>
          (case db_Create (db r) review d of
             ((Some err, review'), d') \<Rightarrow> ((Some err, review'), d')
           | ((None, review'), d') \<Rightarrow> ((None, review'), d')))"

definition PostgresRepository_GetByID ::
  "('d, 't) PostgresRepository \<Rightarrow> Context \<Rightarrow> go_uint \<Rightarrow> 'd
    \<Rightarrow> (go_error + 't GormReview) \<times> 'd" where
  "PostgresRepository_GetByID r ctx i d =
     (case ctx_Err ctx of
        Some e \<Rightarrow> (Inl e, d)
      | None \<Rightarrow>
          (case db_First (db r) i d of
             (Inl err, d') \<Rightarrow>
               if errors_Is err ErrRecordNotFound then (Inl ErrReviewNotFound, d')
               else (Inl err, d')
           | (Inr review, d') \<Rightarrow> (Inr review, d')))"

definition PostgresRepository_Update ::
  "('d, 't) PostgresRepository \<Rightarrow> Context \<Rightarrow> 't GormReview \<Rightarrow> 'd
    \<Rightarrow> (go_error option \<times> 't GormReview) \<times> 'd" where
  "PostgresRepository_Update r ctx review d =
     (case ctx_Err ctx of
        Some e \<Rightarrow> ((Some e, review), d)
      | None \<Rightarrow>
          (case db_Save (db r) review d of
             ((Some err, review'), d') \<Rightarrow> ((Some err, review'), d')
           | ((None, review'), d') \<Rightarrow> ((None, review'), d')))"

definition PostgresRepository_Delete ::
  "('d, 't) PostgresRepository \<Rightarrow> Context \<Rightarrow> go_uint \<Rightarrow> 'd \<Rightarrow> go_error option \<times> 'd" where
  "PostgresRepository_Delete r ctx i d =
     (case ctx_Err ctx of
        Some e \<Rightarrow> (Some e, d)
      | None \<Rightarrow>
          (case db_Delete (db r) i d of
             (Some err, d') \<Rightarrow> (Some err, d')
           | (None, d') \<Rightarrow> (None, d')))"

definition PostgresRepository_GetAll ::
  "('d, 't) PostgresRepository \<Rightarrow> Context \<Rightarrow> 'd \<Rightarrow> (go_error + 't GormReview list) \<times> 'd" where
  "PostgresRepository_GetAll r ctx d =
     (case ctx_Err ctx of
        Some e \<Rightarrow> (Inl e, d)
      | None \<Rightarrow>
          (case db_Find (db r) [] d of
             (Inl err, d') \<Rightarrow> (Inl err, d')
           | (Inr reviews, d') \<Rightarrow> (Inr reviews, d')))"

definition PostgresRepository_GetByRating ::
  "('d, 't) PostgresRepository \<Rightarrow> Context \<Rightarrow> go_int \<Rightarrow> 'd
    \<Rightarrow> (go_error + 't GormReview list) \<times> 'd" where
  "PostgresRepository_GetByRating r ctx rating d =
     (case ctx_Err ctx of
        Some e \<Rightarrow> (Inl e, d)
      | None \<Rightarrow>
          (case db_Find (db r) [(''rating = ?'', ArgInt rating)] d of
             (Inl err, d') \<Rightarrow> (Inl err, d')
           | (Inr reviews, d') \<Rightarrow> (Inr reviews, d')))"

definition PostgresRepository_GetByUser ::
  "('d, 't) PostgresRepository \<Rightarrow> Context \<Rightarrow> go_uint \<Rightarrow> 'd
    \<Rightarrow> (go_error + 't GormReview list) \<times> 'd" where
  "PostgresRepository_GetByUser r ctx userID d =
     (case ctx_Err ctx of
        Some e \<Rightarrow> (Inl e, d)
      | None \<Rightarrow>
          (case db_Find (db r) [(''user_id = ?'', ArgUint userID)] d of
             (Inl err, d') \<Rightarrow> (Inl err, d')
           | (Inr reviews, d') \<Rightarrow> (Inr reviews, d')))"

definition PostgresRepository_GetByMedia ::
  "('d, 't) PostgresRepository \<Rightarrow> Context \<Rightarrow> go_uint \<Rightarrow> 'd
    \<Rightarrow> (go_error + 't GormReview list) \<times> 'd" where
  "PostgresRepository_GetByMedia r ctx mediaID d =
     (case ctx_Err ctx of
        Some e \<Rightarrow> (Inl e, d)
      | None \<Rightarrow>
          (case db_Find (db r) [(''media_id = ?'', ArgUint mediaID)] d of
             (Inl err, d') \<Rightarrow> (Inl err, d')
           | (Inr reviews, d') \<Rightarrow> (Inr reviews, d')))"

text \<open>The adapter seen through the interface, as \<open>NewReviewService(repo, logger)\<close> receives it.\<close>

definition as_Repository :: "('d, 't) PostgresRepository \<Rightarrow> ('d, 't) Repository" where
  "as_Repository r =
     \<lparr>repo_Create = PostgresRepository_Create r,
      repo_GetByID = PostgresRepository_GetByID r,
      repo_Update = PostgresRepository_Update r,
      repo_Delete = PostgresRepository_Delete r,
      repo_GetAll = PostgresRepository_GetAll r,
      repo_GetByRating = PostgresRepository_GetByRating r,
      repo_GetByUser = PostgresRepository_GetByUser r,
      repo_GetByMedia = PostgresRepository_GetByMedia r\<rparr>"

section \<open>The handler: ReviewService\<close>

text \<open>
  The handler's logger writes diagnostics only: no result and no storage call depends on
  it, and the model leaves it out. \<open>checkContextCancelled\<close> is the \<open>select\<close> on
  \<open>ctx.Done()\<close>: the context's error when it is done, \<open>nil\<close> otherwise.
  \<open>status.Errorf\<close> with a format that has no verb is \<open>status.Error\<close>.
\<close>

record ('s, 't) ReviewService =
  repo :: "('s, 't) Repository"

definition checkContextCancelled :: "Context \<Rightarrow> go_error option" where
  "checkContextCancelled ctx = (case ctx_Err ctx of Some e \<Rightarrow> Some e | None \<Rightarrow> None)"

definition ConvertToProtoReview :: "'t time_pkg \<Rightarrow> 't GormReview \<Rightarrow> Review" where
  "ConvertToProtoReview tm gormReview =
     \<lparr>proto_Id = int64_of_uint (ID gormReview),
      proto_MediaId = int64_of_uint (MediaID gormReview),
      proto_UserId = int64_of_uint (UserID gormReview),
      proto_Content = Content gormReview,
      proto_Rating = int32_of_int (Rating gormReview),
      proto_CreatedAt = time_Format tm (CreatedAt gormReview) RFC3339,
      proto_UpdatedAt = time_Format tm (UpdatedAt gormReview) RFC3339\<rparr>"

definition Create ::
  "'t time_pkg \<Rightarrow> ('s, 't) ReviewService \<Rightarrow> Context \<Rightarrow> CreateReviewRequest \<Rightarrow> ('s, 't) world
    \<Rightarrow> (status + CreateReviewResponse) \<times> ('s, 't) world" where
  "Create tm s ctx req w =
     (case checkContextCancelled ctx of
        Some err \<Rightarrow> (Inl (status_Error Canceled (error_Error err)), w)
      | None \<Rightarrow>
          if sint (create_Rating req) < 1 \<or> sint (create_Rating req) > 10
          then (Inl (status_Error InvalidArgument ''Rating must be between 1 and 10''), w)
          else
            (let gormReview =
                   \<lparr>ID = 0,
                    MediaID = uint_of_int64 (create_MediaId req),
                    UserID = uint_of_int64 (create_UserId req),
                    Content = create_Content req,
                    Rating = int_of_int32 (create_Rating req),
                    CreatedAt = time_zero tm,
                    UpdatedAt = time_zero tm\<rparr>
             in case call_Create (repo s) ctx gormReview w of
                  ((Some err, gormReview'), w') \<Rightarrow>
                    (Inl (status_Errorf Internal ''Failed to create review: '' err), w')
                | ((None, gormReview'), w') \<Rightarrow>
                    (Inr (CreateReviewResponse (ConvertToProtoReview tm gormReview')), w')))"

definition GetByID ::
  "'t time_pkg \<Rightarrow> ('s, 't) ReviewService \<Rightarrow> Context \<Rightarrow> GetReviewRequest \<Rightarrow> ('s, 't) world
    \<Rightarrow> (status + GetReviewResponse) \<times> ('s, 't) world" where
  "GetByID tm s ctx req w =
     (case checkContextCancelled ctx of
        Some err \<Rightarrow> (Inl (status_Error Canceled (error_Error err)), w)
      | None \<Rightarrow>
          (case call_GetByID (repo s) ctx (uint_of_int64 (get_Id req)) w of
             (Inl err, w') \<Rightarrow>
               if errors_Is err ErrReviewNotFound
               then (Inl (status_Errorf NotFound ''Review not found: '' err), w')
               else (Inl (status_Errorf Internal ''Failed to get review: '' err), w')
           | (Inr gormReview, w') \<Rightarrow>
               (Inr (GetReviewResponse (ConvertToProtoReview tm gormReview)), w')))"

definition Update ::
  "'t time_pkg \<Rightarrow> ('s, 't) ReviewService \<Rightarrow> Context \<Rightarrow> UpdateReviewRequest \<Rightarrow> ('s, 't) world
    \<Rightarrow> (status + UpdateReviewResponse) \<times> ('s, 't) world" where
  "Update tm s ctx req w =
     (case checkContextCancelled ctx of
        Some err \<Rightarrow> (Inl (status_Error Canceled (error_Error err)), w)
      | None \<Rightarrow>
          (case call_GetByID (repo s) ctx (uint_of_int64 (update_Id req)) w of
             (Inl err, w') \<Rightarrow>
               if errors_Is err ErrReviewNotFound
               then (Inl (status_Errorf NotFound ''Review not found: '' err), w')
               else (Inl (status_Errorf Internal ''Failed to get review: '' err), w')
           | (Inr gormReview0, w') \<Rightarrow>
               (let gormReview1 =
                      (if update_Content req \<noteq> []
                       then gormReview0\<lparr>Content := update_Content req\<rparr>
                       else gormReview0)
                in if update_Rating req \<noteq> 0
                      \<and> (sint (update_Rating req) < 1 \<or> sint (update_Rating req) > 10)
                   then (Inl (status_Error InvalidArgument ''Rating must be between 1 and 10''), w')
                   else
                     (let gormReview2 =
                            (if update_Rating req \<noteq> 0
                             then gormReview1\<lparr>Rating := int_of_int32 (update_Rating req)\<rparr>
                             else gormReview1)
                      in case call_Update (repo s) ctx gormReview2 w' of
                           ((Some err, gormReview3), w'') \<Rightarrow>
                             (Inl (status_Errorf Internal ''Failed to update review: '' err), w'')
                         | ((None, gormReview3), w'') \<Rightarrow>
                             (Inr (UpdateReviewResponse (ConvertToProtoReview tm gormReview3)),
                              w'')))))"

definition Delete ::
  "('s, 't) ReviewService \<Rightarrow> Context \<Rightarrow> DeleteReviewRequest \<Rightarrow> ('s, 't) world
    \<Rightarrow> (status + DeleteReviewResponse) \<times> ('s, 't) world" where
  "Delete s ctx req w =
     (case checkContextCancelled ctx of
        Some err \<Rightarrow> (Inl (status_Error Canceled (error_Error err)), w)
      | None \<Rightarrow>
          (case call_GetByID (repo s) ctx (uint_of_int64 (delete_Id req)) w of
             (Inl err, w') \<Rightarrow>
               if errors_Is err ErrReviewNotFound
               then (Inl (status_Errorf NotFound ''Review not found: '' err), w')
               else (Inl (status_Errorf Internal ''Failed to check review existence: '' err), w')
           | (Inr gormReview, w') \<Rightarrow>
               (case call_Delete (repo s) ctx (uint_of_int64 (delete_Id req)) w' of
                  (Some err, w'') \<Rightarrow>
                    (Inl (status_Errorf Internal ''Failed to delete review: '' err), w'')
                | (None, w'') \<Rightarrow> (Inr (DeleteReviewResponse True), w''))))"

definition GetAll ::
  "'t time_pkg \<Rightarrow> ('s, 't) ReviewService \<Rightarrow> Context \<Rightarrow> GetAllReviewsRequest \<Rightarrow> ('s, 't) world
    \<Rightarrow> (status + GetAllReviewsResponse) \<times> ('s, 't) world" where
  "GetAll tm s ctx req w =
     (case checkContextCancelled ctx of
        Some err \<Rightarrow> (Inl (status_Error Canceled (error_Error err)), w)
      | None \<Rightarrow>
          (case call_GetAll (repo s) ctx w of
             (Inl err, w') \<Rightarrow> (Inl (status_Errorf Internal ''Failed to get reviews: '' err), w')
           | (Inr gormReviews, w') \<Rightarrow>
               (Inr (GetAllReviewsResponse (map (ConvertToProtoReview tm) gormReviews)), w')))"

definition GetByRating ::
  "'t time_pkg \<Rightarrow> ('s, 't) ReviewService \<Rightarrow> Context \<Rightarrow> GetByRatingRequest \<Rightarrow> ('s, 't) world
    \<Rightarrow> (status + GetByRatingResponse) \<times> ('s, 't) world" where
  "GetByRating tm s ctx req w =
     (case checkContextCancelled ctx of
        Some err \<Rightarrow> (Inl (status_Error Canceled (error_Error err)), w)
      | None \<Rightarrow>
          if sint (byRating_Rating req) < 1 \<or> sint (byRating_Rating req) > 10
          then (Inl (status_Error InvalidArgument ''Rating must be between 1 and 10''), w)
          else
            (case call_GetByRating (repo s) ctx (int_of_int32 (byRating_Rating req)) w of
               (Inl err, w') \<Rightarrow>
                 (Inl (status_Errorf Internal ''Failed to get reviews by rating: '' err), w')
             | (Inr gormReviews, w') \<Rightarrow>
                 (Inr (GetByRatingResponse (map (ConvertToProtoReview tm) gormReviews)), w')))"

definition GetByUser ::
  "'t time_pkg \<Rightarrow> ('s, 't) ReviewService \<Rightarrow> Context \<Rightarrow> GetByUserRequest \<Rightarrow> ('s, 't) world
    \<Rightarrow> (status + GetByUserResponse) \<times> ('s, 't) world" where
  "GetByUser tm s ctx req w =
     (case checkContextCancelled ctx of
        Some err \<Rightarrow> (Inl (status_Error Canceled (error_Error err)), w)
      | None \<Rightarrow>
          (case call_GetByUser (repo s) ctx (uint_of_int64 (byUser_UserId req)) w of
             (Inl err, w') \<Rightarrow>
               (Inl (status_Errorf Internal ''Failed to get reviews by user: '' err), w')
           | (Inr gormReviews, w') \<Rightarrow>
               (Inr (GetByUserResponse (map (ConvertToProtoReview tm) gormReviews)), w')))"

definition GetByMedia ::
  "'t time_pkg \<Rightarrow> ('s, 't) ReviewService \<Rightarrow> Context \<Rightarrow> GetByMediaRequest \<Rightarrow> ('s, 't) world
    \<Rightarrow> (status + GetByMediaResponse) \<times> ('s, 't) world" where
  "GetByMedia tm s ctx req w =
     (case checkContextCancelled ctx of
        Some err \<Rightarrow> (Inl (status_Error Canceled (error_Error err)), w)
      | None \<Rightarrow>
          (case call_GetByMedia (repo s) ctx (uint_of_int64 (byMedia_MediaId req)) w of
             (Inl err, w') \<Rightarrow>
               (Inl (status_Errorf Internal ''Failed to get reviews by media: '' err), w')
           | (Inr gormReviews, w') \<Rightarrow>
               (Inr (GetByMediaResponse (map (ConvertToProtoReview tm) gormReviews)), w')))"

text \<open>The status code of an outcome: \<open>None\<close> for a success.\<close>

definition outcome_code :: "(status + 'a) \<times> 'w \<Rightarrow> codes option" where
  "outcome_code out = (case fst out of Inl st \<Rightarrow> Some (code st) | Inr _ \<Rightarrow> None)"

section \<open>A database to run the service on\<close>

text \<open>
  The theorems below hold for every storage port. To apply them to concrete requests, this
  section supplies one database for the gorm handle: a table of rows in memory, with the
  next free id and the time the engine stamps on a row. It follows what the adapter expects
  of gorm: \<open>Create\<close> assigns the id of a record that has none and stamps both timestamps,
  \<open>First\<close> fails with \<open>ErrRecordNotFound\<close> when no row has the id, \<open>Save\<close> creates a
  record that has no id, and otherwise stamps \<open>UpdatedAt\<close> and writes every field of the row
  with that id, inserting the row when there is none, \<open>Delete\<close> removes the row, and \<open>Find\<close>
  returns the rows that satisfy every \<open>Where\<close>. Its times are their own RFC 3339 text.
\<close>

record 't table =
  rows :: "'t GormReview list"
  next_id :: go_uint
  clock :: 't

fun matches :: "string \<times> sql_arg \<Rightarrow> 't GormReview \<Rightarrow> bool" where
  "matches (q, ArgInt n) r = (q = ''rating = ?'' \<and> Rating r = n)"
| "matches (q, ArgUint u) r =
     ((q = ''user_id = ?'' \<and> UserID r = u) \<or> (q = ''media_id = ?'' \<and> MediaID r = u))"

definition table_Create ::
  "'t GormReview \<Rightarrow> 't table \<Rightarrow> (go_error option \<times> 't GormReview) \<times> 't table" where
  "table_Create review t =
     (let review' = review\<lparr>ID := (if ID review = 0 then next_id t else ID review),
                             CreatedAt := clock t, UpdatedAt := clock t\<rparr>
      in if find (\<lambda>r. ID r = ID review') (rows t) \<noteq> None
         then ((Some (Other ''duplicate key''), review), t)
         else ((None, review'), t\<lparr>rows := rows t @ [review'], next_id := next_id t + 1\<rparr>))"

definition table_First :: "go_uint \<Rightarrow> 't table \<Rightarrow> (go_error + 't GormReview) \<times> 't table" where
  "table_First i t =
     (case find (\<lambda>r. ID r = i) (rows t) of
        None \<Rightarrow> (Inl ErrRecordNotFound, t)
      | Some r \<Rightarrow> (Inr r, t))"

definition table_Save ::
  "'t GormReview \<Rightarrow> 't table \<Rightarrow> (go_error option \<times> 't GormReview) \<times> 't table" where
  "table_Save review t =
     (if ID review = 0 then table_Create review t
      else
        (let review' = review\<lparr>UpdatedAt := clock t\<rparr>
         in if find (\<lambda>r. ID r = ID review) (rows t) = None
            then ((None, review'), t\<lparr>rows := rows t @ [review']\<rparr>)
            else ((None, review'),
                  t\<lparr>rows := map (\<lambda>r. if ID r = ID review then review' else r) (rows t)\<rparr>)))"

definition table_Delete :: "go_uint \<Rightarrow> 't table \<Rightarrow> go_error option \<times> 't table" where
  "table_Delete i t = (None, t\<lparr>rows := filter (\<lambda>r. ID r \<noteq> i) (rows t)\<rparr>)"

definition table_Find ::
  "(string \<times> sql_arg) list \<Rightarrow> 't table \<Rightarrow> (go_error + 't GormReview list) \<times> 't table" where
  "table_Find conds t = (Inr (filter (\<lambda>r. list_all (\<lambda>c. matches c r) conds) (rows t)), t)"

definition table_db :: "('t table, 't) gorm_DB" where
  "table_db =
     \<lparr>db_Create = table_Create, db_First = table_First, db_Save = table_Save,
      db_Delete = table_Delete, db_Find = table_Find\<rparr>"

definition text_time :: "string time_pkg" where
  "text_time = \<lparr>time_zero = ''0001-01-01T00:00:00Z'', time_Format = (\<lambda>t layout. t)\<rparr>"

text \<open>The service as \<open>RunServer\<close> builds it: the handler over the adapter over the database.\<close>

definition table_service :: "(string table, string) ReviewService" where
  "table_service = \<lparr>repo = as_Repository \<lparr>db = table_db\<rparr>\<rparr>"

text \<open>
  Two states of it: an empty table, and a table holding one review, with id 1 and rating 9,
  created at noon; the engine's clock is one second later. \<open>live\<close> is a context that is
  not done, \<open>cancelled\<close> one that is.
\<close>

definition empty_world :: "(string table, string) world" where
  "empty_world =
     \<lparr>store = \<lparr>rows = [], next_id = 1, clock = ''2024-05-01T12:00:00Z''\<rparr>, calls = []\<rparr>"

definition great_review :: "string GormReview" where
  "great_review =
     \<lparr>ID = 1, MediaID = 7, UserID = 3, Content = ''great'', Rating = 9,
      CreatedAt = ''2024-05-01T12:00:00Z'', UpdatedAt = ''2024-05-01T12:00:00Z''\<rparr>"

definition one_world :: "(string table, string) world" where
  "one_world =
     \<lparr>store = \<lparr>rows = [great_review], next_id = 2, clock = ''2024-05-01T12:00:01Z''\<rparr>,
      calls = []\<rparr>"

definition live :: Context where
  "live = Context None"

definition cancelled :: Context where
  "cancelled = Context (Some context_Canceled)"

text \<open>
  Two more databases, for the failures the table never produces: one that cannot be reached,
  so that every call fails, and the table opened read-only, so that reads succeed and every
  write fails.
\<close>

definition down_db :: "(unit, string) gorm_DB" where
  "down_db =
     \<lparr>db_Create = (\<lambda>review d. ((Some (Other ''connection refused''), review), d)),
      db_First = (\<lambda>i d. (Inl (Other ''connection refused''), d)),
      db_Save = (\<lambda>review d. ((Some (Other ''connection refused''), review), d)),
      db_Delete = (\<lambda>i d. (Some (Other ''connection refused''), d)),
      db_Find = (\<lambda>conds d. (Inl (Other ''connection refused''), d))\<rparr>"

definition down_service :: "(unit, string) ReviewService" where
  "down_service = \<lparr>repo = as_Repository \<lparr>db = down_db\<rparr>\<rparr>"

definition down_world :: "(unit, string) world" where
  "down_world = \<lparr>store = (), calls = []\<rparr>"

definition readonly_db :: "(string table, string) gorm_DB" where
  "readonly_db =
     \<lparr>db_Create = (\<lambda>review d. ((Some (Other ''read-only transaction''), review), d)),
      db_First = table_First,
      db_Save = (\<lambda>review d. ((Some (Other ''read-only transaction''), review), d)),
      db_Delete = (\<lambda>i d. (Some (Other ''read-only transaction''), d)),
      db_Find = table_Find\<rparr>"

definition readonly_service :: "(string table, string) ReviewService" where
  "readonly_service = \<lparr>repo = as_Repository \<lparr>db = readonly_db\<rparr>\<rparr>"

text \<open>
  The scenario of the specification, on the empty table: create a review, read it, update
  its rating alone, list by the new rating, delete it, read it again. \<open>scenario\<close> is the six
  outcomes and the storage calls made, in order. The table's clock stands still.
\<close>

definition scenario ::
  "(status + CreateReviewResponse) \<times> (status + GetReviewResponse)
    \<times> (status + UpdateReviewResponse) \<times> (status + GetByRatingResponse)
    \<times> (status + DeleteReviewResponse) \<times> (status + GetReviewResponse)
    \<times> string repo_call list" where
  "scenario =
     (case Create text_time table_service live
             \<lparr>create_MediaId = 7, create_UserId = 3, create_Content = ''great'',
              create_Rating = 9\<rparr> empty_world of
        (created, w1) \<Rightarrow>
     (case GetByID text_time table_service live (GetReviewRequest 1) w1 of
        (fetched, w2) \<Rightarrow>
     (case Update text_time table_service live
             \<lparr>update_Id = 1, update_Content = [], update_Rating = 5\<rparr> w2 of
        (updated, w3) \<Rightarrow>
     (case GetByRating text_time table_service live (GetByRatingRequest 5) w3 of
        (listed, w4) \<Rightarrow>
     (case Delete table_service live (DeleteReviewRequest 1) w4 of
        (deleted, w5) \<Rightarrow>
     (case GetByID text_time table_service live (GetReviewRequest 1) w5 of
        (gone, w6) \<Rightarrow> (created, fetched, updated, listed, deleted, gone, calls w6)))))))"

section \<open>Auxiliary facts\<close>

lemmas adapter_defs = as_Repository_def PostgresRepository_Create_def
  PostgresRepository_GetByID_def PostgresRepository_Update_def PostgresRepository_Delete_def
  PostgresRepository_GetAll_def PostgresRepository_GetByRating_def
  PostgresRepository_GetByUser_def PostgresRepository_GetByMedia_def

lemmas table_defs = table_service_def table_db_def table_Create_def table_First_def
  table_Save_def table_Delete_def table_Find_def text_time_def empty_world_def one_world_def
  great_review_def Let_def

lemmas failing_defs = down_service_def down_db_def down_world_def readonly_service_def
  readonly_db_def

subsection \<open>Conversions between the integer types\<close>

lemma uint_of_int64_of_uint: "uint_of_int64 (int64_of_uint x) = x"
  by (simp add: uint_of_int64_def int64_of_uint_def)

lemma uint_of_int64_numeral: "uint_of_int64 1 = 1" "uint_of_int64 2 = 2"
  by (simp_all add: uint_of_int64_def)







subsection \<open>The adapter's error mapping\<close>

text \<open>
  When gorm's \<open>First\<close> fails, the adapter reports its own sentinel for gorm's
  \<open>ErrRecordNotFound\<close> and passes every other error on as it is.
\<close>

lemma PostgresRepository_GetByID_sentinel:
  assumes "ctx_Err ctx = None" and "db_First (db r) i d = (Inl err, d')"
  shows "PostgresRepository_GetByID r ctx i d =
           (Inl (if errors_Is err ErrRecordNotFound then ErrReviewNotFound else err), d')"
  using assms by (simp add: PostgresRepository_GetByID_def)

text \<open>
  So the handler over the adapter answers \<open>NotFound\<close> when gorm finds no row, and \<open>Internal\<close>
  for every error of gorm's that is neither of the two sentinels.
\<close>

lemma GetByID_over_PostgresRepository:
  assumes "ctx_Err ctx = None"
    and "db_First (db pr) (uint_of_int64 (get_Id req)) (store w) = (Inl err, d')"
  shows "outcome_code (GetByID tm \<lparr>repo = as_Repository pr\<rparr> ctx req w) =
           Some (if errors_Is err ErrRecordNotFound \<or> errors_Is err ErrReviewNotFound
                 then NotFound else Internal)"
  using assms
  by (simp add: GetByID_def checkContextCancelled_def call_GetByID_def status_Errorf_def
       outcome_code_def as_Repository_def PostgresRepository_GetByID_def)

subsection \<open>What the three databases answer\<close>

lemma live_is_live: "ctx_Err live = None"
  by (simp add: live_def)

lemma cancelled_is_done: "ctx_Err cancelled = Some context_Canceled"
  by (simp add: cancelled_def)

lemma table_finds_great_review:
  "repo_GetByID (repo table_service) live 1 (store one_world)
     = (Inr great_review, store one_world)"
  by (simp add: adapter_defs table_defs live_def)

lemma table_misses_id_2:
  "repo_GetByID (repo table_service) live 2 (store one_world)
     = (Inl ErrReviewNotFound, store one_world)"
  by (simp add: adapter_defs table_defs live_def)

lemma table_Delete_1:
  "repo_Delete (repo table_service) live 1 (store one_world)
     = (None, \<lparr>rows = [], next_id = 2, clock = ''2024-05-01T12:00:01Z''\<rparr>)"
  by (simp add: adapter_defs table_defs live_def)

lemma table_Update_great_review:
  "repo_Update (repo table_service) live great_review (store one_world)
     = ((None, great_review\<lparr>UpdatedAt := ''2024-05-01T12:00:01Z''\<rparr>),
        \<lparr>rows = [great_review\<lparr>UpdatedAt := ''2024-05-01T12:00:01Z''\<rparr>], next_id = 2,
         clock = ''2024-05-01T12:00:01Z''\<rparr>)"
  by (simp add: adapter_defs table_defs live_def)

lemma table_Create_great_review:
  "repo_Create (repo table_service) live
      \<lparr>ID = 0, MediaID = 7, UserID = 3, Content = ''great'', Rating = 9,
       CreatedAt = time_zero text_time, UpdatedAt = time_zero text_time\<rparr> (store empty_world)
     = ((None, great_review),
        \<lparr>rows = [great_review], next_id = 2, clock = ''2024-05-01T12:00:00Z''\<rparr>)"
  by (simp add: adapter_defs table_defs live_def)

lemma table_finds_created_review:
  "repo_GetByID (repo table_service) live 1
      \<lparr>rows = [great_review], next_id = 2, clock = ''2024-05-01T12:00:00Z''\<rparr>
     = (Inr great_review,
        \<lparr>rows = [great_review], next_id = 2, clock = ''2024-05-01T12:00:00Z''\<rparr>)"
  by (simp add: adapter_defs table_defs live_def)

lemma table_empty_lists:
  "repo_GetAll (repo table_service) live (store empty_world) = (Inr [], store empty_world)"
  "repo_GetByRating (repo table_service) live n (store empty_world) = (Inr [], store empty_world)"
  "repo_GetByUser (repo table_service) live u (store empty_world) = (Inr [], store empty_world)"
  "repo_GetByMedia (repo table_service) live m (store empty_world) = (Inr [], store empty_world)"
  by (simp_all add: adapter_defs table_defs live_def)


lemma down_GetByID:
  "repo_GetByID (repo down_service) live i (store down_world)
     = (Inl (Other ''connection refused''), ())"
  by (simp add: adapter_defs failing_defs live_def)

lemma readonly_finds_great_review:
  "repo_GetByID (repo readonly_service) live 1 (store one_world)
     = (Inr great_review, store one_world)"
  by (simp add: adapter_defs table_defs failing_defs live_def)

lemma readonly_Delete:
  "repo_Delete (repo readonly_service) live i d = (Some (Other ''read-only transaction''), d)"
  by (simp add: adapter_defs failing_defs live_def)

section \<open>Rating validation\<close>

text \<open>
  Claim C1 says that \<open>Update\<close> returns \<open>InvalidArgument\<close> exactly when the rating is not 0
  and outside 1..10. \<open>Update\<close> reads the record before it looks at the rating, and a failed
  read decides the outcome: on the table holding review 1 only, an update of review 2 with
  rating 11 is \<open>NotFound\<close>, not \<open>InvalidArgument\<close>.
\<close>

theorem Update_invalid_rating_on_missing_record:
  "ctx_Err live = None
   \<and> update_Rating \<lparr>update_Id = 2, update_Content = [], update_Rating = 11\<rparr> \<noteq> 0
   \<and> sint (update_Rating \<lparr>update_Id = 2, update_Content = [], update_Rating = 11\<rparr>) > 10
   \<and> outcome_code (Update text_time table_service live
         \<lparr>update_Id = 2, update_Content = [], update_Rating = 11\<rparr> one_world)
       = Some NotFound
   \<and> outcome_code (Update text_time table_service live
         \<lparr>update_Id = 2, update_Content = [], update_Rating = 11\<rparr> one_world)
       \<noteq> Some InvalidArgument"
  by (simp add: Update_def checkContextCancelled_def call_GetByID_def status_Errorf_def
       outcome_code_def as_Repository_def PostgresRepository_GetByID_def table_service_def
       table_db_def table_First_def one_world_def great_review_def live_def uint_of_int64_def)

text \<open>
  Claim C1, amended. Under a context that is not done, for every rating \<open>r\<close>: \<open>Create\<close>
  returns \<open>InvalidArgument\<close> exactly when \<open>r < 1\<close> or \<open>r > 10\<close>, and then leaves the storage
  and the list of storage calls as they were; \<open>GetByRating\<close> returns \<open>InvalidArgument\<close>
  exactly when \<open>r < 1\<close> or \<open>r > 10\<close>; and \<open>Update\<close>, on a record the port finds, returns
  \<open>InvalidArgument\<close> exactly when \<open>r\<close> is not 0 and outside 1..10. With \<open>r = 0\<close> the update
  is not rejected: after the read it hands the port a record whose rating is the stored one.
  When the port's read fails, the outcome of \<open>Update\<close> is \<open>NotFound\<close> or \<open>Internal\<close>, by the
  error alone and whatever \<open>r\<close> is.
\<close>

theorem rating_validation:
  assumes live: "ctx_Err ctx = None"
  shows "(outcome_code (Create tm s ctx creq w) = Some InvalidArgument
            \<longleftrightarrow> sint (create_Rating creq) < 1 \<or> sint (create_Rating creq) > 10)
       \<and> (sint (create_Rating creq) < 1 \<or> sint (create_Rating creq) > 10
            \<longrightarrow> snd (Create tm s ctx creq w) = w)
       \<and> (outcome_code (GetByRating tm s ctx rreq w) = Some InvalidArgument
            \<longleftrightarrow> sint (byRating_Rating rreq) < 1 \<or> sint (byRating_Rating rreq) > 10)
       \<and> (\<forall>r0 s1. repo_GetByID (repo s) ctx (uint_of_int64 (update_Id ureq)) (store w)
                      = (Inr r0, s1)
            \<longrightarrow> (outcome_code (Update tm s ctx ureq w) = Some InvalidArgument
                   \<longleftrightarrow> update_Rating ureq \<noteq> 0
                       \<and> (sint (update_Rating ureq) < 1 \<or> sint (update_Rating ureq) > 10))
              \<and> (update_Rating ureq = 0
                   \<longrightarrow> (\<exists>rv. calls (snd (Update tm s ctx ureq w))
                                 = calls w @ [CallGetByID (uint_of_int64 (update_Id ureq)),
                                              CallUpdate rv]
                              \<and> Rating rv = Rating r0)))
       \<and> (\<forall>err s1. repo_GetByID (repo s) ctx (uint_of_int64 (update_Id ureq)) (store w)
                       = (Inl err, s1)
            \<longrightarrow> outcome_code (Update tm s ctx ureq w)
                  = Some (if errors_Is err ErrReviewNotFound then NotFound else Internal))"
proof -
  have c6: "outcome_code (Update tm s ctx ureq w)
              = Some (if errors_Is err ErrReviewNotFound then NotFound else Internal)"
    if "repo_GetByID (repo s) ctx (uint_of_int64 (update_Id ureq)) (store w) = (Inl err, s1)"
    for err s1
    using live that
    by (simp add: Update_def checkContextCancelled_def call_GetByID_def status_Errorf_def
         outcome_code_def)
  have c1: "outcome_code (Create tm s ctx creq w) = Some InvalidArgument
            \<longleftrightarrow> sint (create_Rating creq) < 1 \<or> sint (create_Rating creq) > 10"
    using live
    by (simp add: Create_def checkContextCancelled_def status_Error_def status_Errorf_def
         outcome_code_def Let_def split: prod.splits option.splits)
  have c2: "snd (Create tm s ctx creq w) = w"
    if "sint (create_Rating creq) < 1 \<or> sint (create_Rating creq) > 10"
    using live that by (simp add: Create_def checkContextCancelled_def)
  have c3: "outcome_code (GetByRating tm s ctx rreq w) = Some InvalidArgument
            \<longleftrightarrow> sint (byRating_Rating rreq) < 1 \<or> sint (byRating_Rating rreq) > 10"
    using live
    by (simp add: GetByRating_def checkContextCancelled_def status_Error_def status_Errorf_def
         outcome_code_def split: prod.splits sum.splits)
  have c4: "outcome_code (Update tm s ctx ureq w) = Some InvalidArgument
                   \<longleftrightarrow> update_Rating ureq \<noteq> 0
                       \<and> (sint (update_Rating ureq) < 1 \<or> sint (update_Rating ureq) > 10)"
    if "repo_GetByID (repo s) ctx (uint_of_int64 (update_Id ureq)) (store w) = (Inr r0, s1)"
    for r0 s1
    using live that
    by (simp add: Update_def checkContextCancelled_def status_Error_def status_Errorf_def
         call_GetByID_def call_Update_def outcome_code_def Let_def
         split: prod.splits option.splits)
  have c5: "\<exists>rv. calls (snd (Update tm s ctx ureq w))
                 = calls w @ [CallGetByID (uint_of_int64 (update_Id ureq)), CallUpdate rv]
              \<and> Rating rv = Rating r0"
    if "repo_GetByID (repo s) ctx (uint_of_int64 (update_Id ureq)) (store w) = (Inr r0, s1)"
      and "update_Rating ureq = 0"
    for r0 s1
    using live that
    by (simp add: Update_def checkContextCancelled_def call_GetByID_def call_Update_def Let_def
         split: prod.splits option.splits)
  show ?thesis using c1 c2 c3 c4 c5 c6 by blast
qed

text \<open>
  On the table holding review 1: a create with rating 11 and a listing by rating 0 are
  rejected, a create with rating 10 and a listing by rating 1 are not; an update of review 1
  is rejected with rating 11 and with rating -1, not with rating 5; the update with
  rating 0 reads review 1 and writes a record with the stored rating 9; and an update of
  review 2, which is absent, is \<open>NotFound\<close> with rating 5 as with rating 11.
\<close>

theorem rating_validation_witness:
  "ctx_Err live = None
   \<and> outcome_code (Create text_time table_service live
        \<lparr>create_MediaId = 7, create_UserId = 3, create_Content = ''great'', create_Rating = 11\<rparr>
        one_world) = Some InvalidArgument
   \<and> snd (Create text_time table_service live
        \<lparr>create_MediaId = 7, create_UserId = 3, create_Content = ''great'', create_Rating = 11\<rparr>
        one_world) = one_world
   \<and> outcome_code (Create text_time table_service live
        \<lparr>create_MediaId = 7, create_UserId = 3, create_Content = ''great'', create_Rating = 10\<rparr>
        one_world) \<noteq> Some InvalidArgument
   \<and> outcome_code (GetByRating text_time table_service live (GetByRatingRequest 0) one_world)
        = Some InvalidArgument
   \<and> outcome_code (GetByRating text_time table_service live (GetByRatingRequest 1) one_world)
        \<noteq> Some InvalidArgument
   \<and> outcome_code (Update text_time table_service live
        \<lparr>update_Id = 1, update_Content = [], update_Rating = 11\<rparr> one_world)
        = Some InvalidArgument
   \<and> outcome_code (Update text_time table_service live
        \<lparr>update_Id = 1, update_Content = [], update_Rating = - 1\<rparr> one_world)
        = Some InvalidArgument
   \<and> outcome_code (Update text_time table_service live
        \<lparr>update_Id = 1, update_Content = [], update_Rating = 5\<rparr> one_world)
        \<noteq> Some InvalidArgument
   \<and> outcome_code (Update text_time table_service live
        \<lparr>update_Id = 1, update_Content = [], update_Rating = 0\<rparr> one_world)
        \<noteq> Some InvalidArgument
   \<and> (\<exists>rv. calls (snd (Update text_time table_service live
                \<lparr>update_Id = 1, update_Content = [], update_Rating = 0\<rparr> one_world))
              = calls one_world @ [CallGetByID 1, CallUpdate rv]
           \<and> Rating rv = 9)
   \<and> outcome_code (Update text_time table_service live
        \<lparr>update_Id = 2, update_Content = [], update_Rating = 5\<rparr> one_world)
        = Some NotFound
   \<and> outcome_code (Update text_time table_service live
        \<lparr>update_Id = 2, update_Content = [], update_Rating = 11\<rparr> one_world)
        = Some NotFound"
proof -
  note found = table_finds_great_review
  have stored: "Rating great_review = 9"
    by (simp add: great_review_def)
  note t = rating_validation [OF live_is_live, where tm = text_time and s = table_service
      and w = one_world]
  have a: "outcome_code (Create text_time table_service live
        \<lparr>create_MediaId = 7, create_UserId = 3, create_Content = ''great'', create_Rating = 11\<rparr>
        one_world) = Some InvalidArgument
     \<and> snd (Create text_time table_service live
        \<lparr>create_MediaId = 7, create_UserId = 3, create_Content = ''great'', create_Rating = 11\<rparr>
        one_world) = one_world
     \<and> outcome_code (GetByRating text_time table_service live (GetByRatingRequest 0) one_world)
        = Some InvalidArgument
     \<and> outcome_code (Update text_time table_service live
        \<lparr>update_Id = 1, update_Content = [], update_Rating = 11\<rparr> one_world)
        = Some InvalidArgument"
    using t [where creq = "\<lparr>create_MediaId = 7, create_UserId = 3, create_Content = ''great'',
                create_Rating = 11\<rparr>"
        and rreq = "GetByRatingRequest 0"
        and ureq = "\<lparr>update_Id = 1, update_Content = [], update_Rating = 11\<rparr>"] found
    by (simp add: uint_of_int64_numeral)
  have b: "outcome_code (Create text_time table_service live
        \<lparr>create_MediaId = 7, create_UserId = 3, create_Content = ''great'', create_Rating = 10\<rparr>
        one_world) \<noteq> Some InvalidArgument
     \<and> outcome_code (GetByRating text_time table_service live (GetByRatingRequest 1) one_world)
        \<noteq> Some InvalidArgument
     \<and> outcome_code (Update text_time table_service live
        \<lparr>update_Id = 1, update_Content = [], update_Rating = 5\<rparr> one_world)
        \<noteq> Some InvalidArgument"
    using t [where creq = "\<lparr>create_MediaId = 7, create_UserId = 3, create_Content = ''great'',
                create_Rating = 10\<rparr>"
        and rreq = "GetByRatingRequest 1"
        and ureq = "\<lparr>update_Id = 1, update_Content = [], update_Rating = 5\<rparr>"] found
    by (simp add: uint_of_int64_numeral)
  have c: "outcome_code (Update text_time table_service live
        \<lparr>update_Id = 1, update_Content = [], update_Rating = - 1\<rparr> one_world)
        = Some InvalidArgument"
    using t [where ureq = "\<lparr>update_Id = 1, update_Content = [], update_Rating = - 1\<rparr>"] found
    by (simp add: uint_of_int64_numeral)
  have d: "outcome_code (Update text_time table_service live
        \<lparr>update_Id = 1, update_Content = [], update_Rating = 0\<rparr> one_world)
        \<noteq> Some InvalidArgument
     \<and> (\<exists>rv. calls (snd (Update text_time table_service live
                \<lparr>update_Id = 1, update_Content = [], update_Rating = 0\<rparr> one_world))
              = calls one_world @ [CallGetByID 1, CallUpdate rv]
           \<and> Rating rv = 9)"
    using t [where ureq = "\<lparr>update_Id = 1, update_Content = [], update_Rating = 0\<rparr>"] found
      stored
    by (simp add: uint_of_int64_numeral)
  have e: "outcome_code (Update text_time table_service live
        \<lparr>update_Id = 2, update_Content = [], update_Rating = 5\<rparr> one_world)
        = Some NotFound"
    using table_misses_id_2
      t [where ureq = "\<lparr>update_Id = 2, update_Content = [], update_Rating = 5\<rparr>"]
    by (simp add: uint_of_int64_numeral)
  have f: "outcome_code (Update text_time table_service live
        \<lparr>update_Id = 2, update_Content = [], update_Rating = 11\<rparr> one_world)
        = Some NotFound"
    using table_misses_id_2
      t [where ureq = "\<lparr>update_Id = 2, update_Content = [], update_Rating = 11\<rparr>"]
    by (simp add: uint_of_int64_numeral)
  show ?thesis using live_is_live a b c d e f by simp
qed

section \<open>Not found against internal failure\<close>

text \<open>
  Claim C2. Under a context that is not done, when the storage port fails \<open>GetByID\<close> with an
  error that is its not-found sentinel (\<open>errors.Is(err, ErrReviewNotFound)\<close>), the handler's
  \<open>GetByID\<close> returns \<open>NotFound\<close> and not \<open>Internal\<close>; when the port fails with any other
  error, it returns \<open>Internal\<close> and not \<open>NotFound\<close>.
\<close>

theorem GetByID_error_classification:
  assumes live: "ctx_Err ctx = None"
    and fetch: "repo_GetByID (repo s) ctx (uint_of_int64 (get_Id req)) (store w) = (Inl err, s1)"
  shows "(errors_Is err ErrReviewNotFound
            \<longrightarrow> outcome_code (GetByID tm s ctx req w) = Some NotFound
              \<and> outcome_code (GetByID tm s ctx req w) \<noteq> Some Internal)
       \<and> (\<not> errors_Is err ErrReviewNotFound
            \<longrightarrow> outcome_code (GetByID tm s ctx req w) = Some Internal
              \<and> outcome_code (GetByID tm s ctx req w) \<noteq> Some NotFound)"
  using live fetch
  by (simp add: GetByID_def checkContextCancelled_def call_GetByID_def status_Errorf_def
       outcome_code_def)

text \<open>
  Review 2 is not in the table: \<open>NotFound\<close>. The database that cannot be reached fails with
  another error: \<open>Internal\<close>.
\<close>

theorem GetByID_error_classification_witness:
  "ctx_Err live = None
   \<and> repo_GetByID (repo table_service) live 2 (store one_world)
       = (Inl ErrReviewNotFound, store one_world)
   \<and> errors_Is ErrReviewNotFound ErrReviewNotFound
   \<and> outcome_code (GetByID text_time table_service live (GetReviewRequest 2) one_world)
       = Some NotFound
   \<and> repo_GetByID (repo down_service) live 2 (store down_world)
       = (Inl (Other ''connection refused''), ())
   \<and> \<not> errors_Is (Other ''connection refused'') ErrReviewNotFound
   \<and> outcome_code (GetByID text_time down_service live (GetReviewRequest 2) down_world)
       = Some Internal"
proof -
  have missing: "repo_GetByID (repo table_service) live (uint_of_int64 (get_Id (GetReviewRequest 2)))
                   (store one_world) = (Inl ErrReviewNotFound, store one_world)"
    using table_misses_id_2 by (simp add: uint_of_int64_numeral)
  have down: "repo_GetByID (repo down_service) live (uint_of_int64 (get_Id (GetReviewRequest 2)))
                (store down_world) = (Inl (Other ''connection refused''), ())"
    by (rule down_GetByID)
  have a: "outcome_code (GetByID text_time table_service live (GetReviewRequest 2) one_world)
             = Some NotFound"
    using GetByID_error_classification [OF live_is_live missing, of text_time] by simp
  have b: "outcome_code (GetByID text_time down_service live (GetReviewRequest 2) down_world)
             = Some Internal"
    using GetByID_error_classification [OF live_is_live down, of text_time] by simp
  show ?thesis
    using live_is_live table_misses_id_2 down_GetByID [of 2] a b by simp
qed

section \<open>An update that supplies nothing\<close>

text \<open>
  Claim C3. Under a context that is not done, for every record \<open>r\<close> the port finds,
  \<open>Update\<close> with empty content and rating 0 writes \<open>r\<close> back exactly as it was read: the
  storage calls are the read and one \<open>Update\<close> of \<open>r\<close> itself. When that write succeeds, the
  response is the translation of the record as the port leaves it; where the port changed
  nothing but \<open>UpdatedAt\<close>, this is the translation of \<open>r\<close> except for \<open>updatedAt\<close>, so id,
  mediaId, userId, content and rating are those held before the call.
\<close>

theorem Update_empty_request_writes_back_the_record:
  assumes live: "ctx_Err ctx = None"
    and empty: "update_Content req = []" "update_Rating req = 0"
    and fetch: "repo_GetByID (repo s) ctx (uint_of_int64 (update_Id req)) (store w) = (Inr r, s1)"
    and save: "repo_Update (repo s) ctx r s1 = ((None, r'), s2)"
  shows "Update tm s ctx req w =
           (Inr (UpdateReviewResponse (ConvertToProtoReview tm r')),
            \<lparr>store = s2,
             calls = calls w @ [CallGetByID (uint_of_int64 (update_Id req)), CallUpdate r]\<rparr>)
       \<and> (r' = r\<lparr>UpdatedAt := UpdatedAt r'\<rparr>
            \<longrightarrow> ConvertToProtoReview tm r' =
                (ConvertToProtoReview tm r)
                  \<lparr>proto_UpdatedAt := time_Format tm (UpdatedAt r') RFC3339\<rparr>)"
proof -
  have run: "Update tm s ctx req w =
           (Inr (UpdateReviewResponse (ConvertToProtoReview tm r')),
            \<lparr>store = s2,
             calls = calls w @ [CallGetByID (uint_of_int64 (update_Id req)), CallUpdate r]\<rparr>)"
    using live empty fetch save
    by (simp add: Update_def checkContextCancelled_def call_GetByID_def call_Update_def)
  have frame: "ConvertToProtoReview tm r' =
                (ConvertToProtoReview tm r)
                  \<lparr>proto_UpdatedAt := time_Format tm (UpdatedAt r') RFC3339\<rparr>"
    if "r' = r\<lparr>UpdatedAt := UpdatedAt r'\<rparr>"
  proof -
    have "ConvertToProtoReview tm (r\<lparr>UpdatedAt := u\<rparr>) =
            (ConvertToProtoReview tm r)\<lparr>proto_UpdatedAt := time_Format tm u RFC3339\<rparr>" for u
      by (simp add: ConvertToProtoReview_def)
    from this [of "UpdatedAt r'"] that show ?thesis by simp
  qed
  show ?thesis using run frame by blast
qed

text \<open>
  On the table holding review 1, one second after it was created: the update reads review 1,
  writes it back, and answers with the same id, media, user, content and rating, and the
  new \<open>updatedAt\<close>; the row differs from the old one in \<open>UpdatedAt\<close> only.
\<close>

theorem Update_empty_request_witness:
  "ctx_Err live = None
   \<and> repo_GetByID (repo table_service) live 1 (store one_world)
       = (Inr great_review, store one_world)
   \<and> Update text_time table_service live
        \<lparr>update_Id = 1, update_Content = [], update_Rating = 0\<rparr> one_world
       = (Inr (UpdateReviewResponse
                \<lparr>proto_Id = 1, proto_MediaId = 7, proto_UserId = 3, proto_Content = ''great'',
                 proto_Rating = 9, proto_CreatedAt = ''2024-05-01T12:00:00Z'',
                 proto_UpdatedAt = ''2024-05-01T12:00:01Z''\<rparr>),
          \<lparr>store = \<lparr>rows = [great_review\<lparr>UpdatedAt := ''2024-05-01T12:00:01Z''\<rparr>],
                    next_id = 2, clock = ''2024-05-01T12:00:01Z''\<rparr>,
           calls = [CallGetByID 1, CallUpdate great_review]\<rparr>)"
proof -
  let ?req = "\<lparr>update_Id = 1, update_Content = [], update_Rating = 0\<rparr>"
  have empty: "update_Content ?req = []" "update_Rating ?req = 0"
    by simp_all
  have fetch: "repo_GetByID (repo table_service) live (uint_of_int64 (update_Id ?req))
                 (store one_world) = (Inr great_review, store one_world)"
    using table_finds_great_review by (simp add: uint_of_int64_numeral)
  have shown: "ConvertToProtoReview text_time (great_review\<lparr>UpdatedAt := ''2024-05-01T12:00:01Z''\<rparr>)
      = \<lparr>proto_Id = 1, proto_MediaId = 7, proto_UserId = 3, proto_Content = ''great'',
         proto_Rating = 9, proto_CreatedAt = ''2024-05-01T12:00:00Z'',
         proto_UpdatedAt = ''2024-05-01T12:00:01Z''\<rparr>"
    by (simp add: ConvertToProtoReview_def great_review_def text_time_def int64_of_uint_def
         int32_of_int_def)
  have no_calls: "calls one_world = []"
    by (simp add: one_world_def)
  show ?thesis
    using Update_empty_request_writes_back_the_record
            [OF live_is_live empty fetch table_Update_great_review, of text_time]
      live_is_live table_finds_great_review shown no_calls
    by (simp add: uint_of_int64_numeral)
qed

section \<open>A context that is already done\<close>

text \<open>
  Claim C4. When the context is already cancelled or past its deadline, each of the eight
  operations returns \<open>Canceled\<close>, with the context's error as the message, and returns the
  storage and the list of storage calls as it received them: it calls the port not once.
\<close>

theorem cancelled_context_returns_Canceled:
  assumes finished: "ctx_Err ctx = Some e"
  shows "Create tm s ctx creq w = (Inl (Status Canceled (error_Error e)), w)
       \<and> GetByID tm s ctx greq w = (Inl (Status Canceled (error_Error e)), w)
       \<and> Update tm s ctx ureq w = (Inl (Status Canceled (error_Error e)), w)
       \<and> Delete s ctx dreq w = (Inl (Status Canceled (error_Error e)), w)
       \<and> GetAll tm s ctx areq w = (Inl (Status Canceled (error_Error e)), w)
       \<and> GetByRating tm s ctx rreq w = (Inl (Status Canceled (error_Error e)), w)
       \<and> GetByUser tm s ctx usreq w = (Inl (Status Canceled (error_Error e)), w)
       \<and> GetByMedia tm s ctx mreq w = (Inl (Status Canceled (error_Error e)), w)"
  using finished
  by (simp add: Create_def GetByID_def Update_def Delete_def GetAll_def GetByRating_def
       GetByUser_def GetByMedia_def checkContextCancelled_def status_Error_def)

text \<open>On the table holding review 1, with requests that would otherwise succeed.\<close>

theorem cancelled_context_witness:
  "ctx_Err cancelled = Some context_Canceled
   \<and> Create text_time table_service cancelled
        \<lparr>create_MediaId = 7, create_UserId = 3, create_Content = ''fine'', create_Rating = 5\<rparr>
        one_world = (Inl (Status Canceled ''context canceled''), one_world)
   \<and> GetByID text_time table_service cancelled (GetReviewRequest 1) one_world
       = (Inl (Status Canceled ''context canceled''), one_world)
   \<and> Update text_time table_service cancelled
        \<lparr>update_Id = 1, update_Content = ''fine'', update_Rating = 5\<rparr> one_world
       = (Inl (Status Canceled ''context canceled''), one_world)
   \<and> Delete table_service cancelled (DeleteReviewRequest 1) one_world
       = (Inl (Status Canceled ''context canceled''), one_world)
   \<and> GetAll text_time table_service cancelled GetAllReviewsRequest one_world
       = (Inl (Status Canceled ''context canceled''), one_world)
   \<and> GetByRating text_time table_service cancelled (GetByRatingRequest 9) one_world
       = (Inl (Status Canceled ''context canceled''), one_world)
   \<and> GetByUser text_time table_service cancelled (GetByUserRequest 3) one_world
       = (Inl (Status Canceled ''context canceled''), one_world)
   \<and> GetByMedia text_time table_service cancelled (GetByMediaRequest 7) one_world
       = (Inl (Status Canceled ''context canceled''), one_world)"
  using cancelled_context_returns_Canceled [OF cancelled_is_done, of text_time table_service
      "\<lparr>create_MediaId = 7, create_UserId = 3, create_Content = ''fine'', create_Rating = 5\<rparr>"
      one_world "GetReviewRequest 1"
      "\<lparr>update_Id = 1, update_Content = ''fine'', update_Rating = 5\<rparr>"
      "DeleteReviewRequest 1" GetAllReviewsRequest "GetByRatingRequest 9"
      "GetByUserRequest 3" "GetByMediaRequest 7"]
    cancelled_is_done
  by simp

section \<open>Delete checks existence first\<close>

text \<open>
  Claim C5. Under a context that is not done: when the port's \<open>GetByID\<close> fails, \<open>Delete\<close>
  returns \<open>NotFound\<close> if the error is the not-found sentinel and \<open>Internal\<close> otherwise, and
  the read is the only storage call, so no delete is issued. When the port finds the
  record, the storage calls are the read and then the delete, in this order; the response
  is the success flag when the delete returns no error, and \<open>Internal\<close> when it fails.
\<close>

theorem Delete_checks_existence_first:
  assumes live: "ctx_Err ctx = None"
  shows "(\<forall>err s1. repo_GetByID (repo s) ctx (uint_of_int64 (delete_Id req)) (store w)
                       = (Inl err, s1)
            \<longrightarrow> outcome_code (Delete s ctx req w)
                  = Some (if errors_Is err ErrReviewNotFound then NotFound else Internal)
              \<and> snd (Delete s ctx req w)
                  = \<lparr>store = s1,
                     calls = calls w @ [CallGetByID (uint_of_int64 (delete_Id req))]\<rparr>)
       \<and> (\<forall>r s1. repo_GetByID (repo s) ctx (uint_of_int64 (delete_Id req)) (store w)
                     = (Inr r, s1)
            \<longrightarrow> calls (snd (Delete s ctx req w))
                  = calls w @ [CallGetByID (uint_of_int64 (delete_Id req)),
                               CallDelete (uint_of_int64 (delete_Id req))]
              \<and> (\<forall>s2. repo_Delete (repo s) ctx (uint_of_int64 (delete_Id req)) s1 = (None, s2)
                    \<longrightarrow> fst (Delete s ctx req w) = Inr (DeleteReviewResponse True)
                      \<and> store (snd (Delete s ctx req w)) = s2)
              \<and> (\<forall>e s2. repo_Delete (repo s) ctx (uint_of_int64 (delete_Id req)) s1
                            = (Some e, s2)
                    \<longrightarrow> outcome_code (Delete s ctx req w) = Some Internal))"
proof -
  let ?i = "uint_of_int64 (delete_Id req)"
  have absent: "outcome_code (Delete s ctx req w)
                  = Some (if errors_Is err ErrReviewNotFound then NotFound else Internal)
              \<and> snd (Delete s ctx req w) = \<lparr>store = s1, calls = calls w @ [CallGetByID ?i]\<rparr>"
    if "repo_GetByID (repo s) ctx ?i (store w) = (Inl err, s1)" for err s1
    using live that
    by (simp add: Delete_def checkContextCancelled_def call_GetByID_def status_Errorf_def
         outcome_code_def)
  have order: "calls (snd (Delete s ctx req w)) = calls w @ [CallGetByID ?i, CallDelete ?i]"
    if "repo_GetByID (repo s) ctx ?i (store w) = (Inr r, s1)" for r s1
    using live that
    by (simp add: Delete_def checkContextCancelled_def call_GetByID_def call_Delete_def
         split: prod.splits option.splits)
  have removed: "fst (Delete s ctx req w) = Inr (DeleteReviewResponse True)
              \<and> store (snd (Delete s ctx req w)) = s2"
    if "repo_GetByID (repo s) ctx ?i (store w) = (Inr r, s1)"
      and "repo_Delete (repo s) ctx ?i s1 = (None, s2)" for r s1 s2
    using live that
    by (simp add: Delete_def checkContextCancelled_def call_GetByID_def call_Delete_def)
  have failed: "outcome_code (Delete s ctx req w) = Some Internal"
    if "repo_GetByID (repo s) ctx ?i (store w) = (Inr r, s1)"
      and "repo_Delete (repo s) ctx ?i s1 = (Some e, s2)" for r s1 e s2
    using live that
    by (simp add: Delete_def checkContextCancelled_def call_GetByID_def call_Delete_def
         status_Errorf_def outcome_code_def)
  show ?thesis using absent order removed failed by blast
qed

text \<open>
  On the table holding review 1: deleting review 2 is \<open>NotFound\<close> after the read alone;
  deleting review 1 reads, deletes, and succeeds, leaving no row. On the database that
  cannot be reached the read fails: \<open>Internal\<close>, after the read alone. On the read-only
  table the read finds review 1 and the delete fails: \<open>Internal\<close>, after both calls.
\<close>

theorem Delete_checks_existence_first_witness:
  "ctx_Err live = None
   \<and> outcome_code (Delete table_service live (DeleteReviewRequest 2) one_world) = Some NotFound
   \<and> calls (snd (Delete table_service live (DeleteReviewRequest 2) one_world)) = [CallGetByID 2]
   \<and> Delete table_service live (DeleteReviewRequest 1) one_world
       = (Inr (DeleteReviewResponse True),
          \<lparr>store = \<lparr>rows = [], next_id = 2, clock = ''2024-05-01T12:00:01Z''\<rparr>,
           calls = [CallGetByID 1, CallDelete 1]\<rparr>)
   \<and> outcome_code (Delete down_service live (DeleteReviewRequest 1) down_world) = Some Internal
   \<and> calls (snd (Delete down_service live (DeleteReviewRequest 1) down_world)) = [CallGetByID 1]
   \<and> outcome_code (Delete readonly_service live (DeleteReviewRequest 1) one_world)
       = Some Internal
   \<and> calls (snd (Delete readonly_service live (DeleteReviewRequest 1) one_world))
       = [CallGetByID 1, CallDelete 1]"
proof -
  have no_calls: "calls one_world = []" "calls down_world = []"
    by (simp_all add: one_world_def down_world_def)
  have a: "outcome_code (Delete table_service live (DeleteReviewRequest 2) one_world)
             = Some NotFound
         \<and> calls (snd (Delete table_service live (DeleteReviewRequest 2) one_world))
             = [CallGetByID 2]"
    using Delete_checks_existence_first [OF live_is_live, of table_service "DeleteReviewRequest 2"
        one_world] table_misses_id_2 no_calls
    by (simp add: uint_of_int64_numeral)
  have b: "calls (snd (Delete table_service live (DeleteReviewRequest 1) one_world))
             = [CallGetByID 1, CallDelete 1]
         \<and> fst (Delete table_service live (DeleteReviewRequest 1) one_world)
             = Inr (DeleteReviewResponse True)
         \<and> store (snd (Delete table_service live (DeleteReviewRequest 1) one_world))
             = \<lparr>rows = [], next_id = 2, clock = ''2024-05-01T12:00:01Z''\<rparr>"
    using Delete_checks_existence_first [OF live_is_live, of table_service "DeleteReviewRequest 1"
        one_world] table_finds_great_review table_Delete_1 no_calls
    by (simp add: uint_of_int64_numeral)
  have b': "Delete table_service live (DeleteReviewRequest 1) one_world
       = (Inr (DeleteReviewResponse True),
          \<lparr>store = \<lparr>rows = [], next_id = 2, clock = ''2024-05-01T12:00:01Z''\<rparr>,
           calls = [CallGetByID 1, CallDelete 1]\<rparr>)"
    using b by (cases "Delete table_service live (DeleteReviewRequest 1) one_world") auto
  have c: "outcome_code (Delete down_service live (DeleteReviewRequest 1) down_world)
             = Some Internal
         \<and> calls (snd (Delete down_service live (DeleteReviewRequest 1) down_world))
             = [CallGetByID 1]"
    using Delete_checks_existence_first [OF live_is_live, of down_service "DeleteReviewRequest 1"
        down_world] down_GetByID [of 1] no_calls
    by (simp add: uint_of_int64_numeral)
  have d: "outcome_code (Delete readonly_service live (DeleteReviewRequest 1) one_world)
             = Some Internal
         \<and> calls (snd (Delete readonly_service live (DeleteReviewRequest 1) one_world))
             = [CallGetByID 1, CallDelete 1]"
    using Delete_checks_existence_first [OF live_is_live, of readonly_service
        "DeleteReviewRequest 1" one_world] readonly_finds_great_review
      readonly_Delete [of 1 "store one_world"] no_calls
    by (simp add: uint_of_int64_numeral)
  show ?thesis using live_is_live a b' c d by simp
qed

section \<open>Validation and the storage calls before it\<close>

text \<open>
  Claim C6 says that a rating outside 1..10 is rejected before any call to the storage
  port, \<open>Update\<close> included. \<open>Update\<close> reads the record first and looks at the rating
  afterwards: on the table holding review 1, an update of review 1 with rating 11 is
  rejected with \<open>InvalidArgument\<close> after one storage call, the read.
\<close>

theorem Update_invalid_rating_reads_storage:
  "outcome_code (Update text_time table_service live
       \<lparr>update_Id = 1, update_Content = [], update_Rating = 11\<rparr> one_world)
     = Some InvalidArgument
   \<and> calls one_world = []
   \<and> calls (snd (Update text_time table_service live
       \<lparr>update_Id = 1, update_Content = [], update_Rating = 11\<rparr> one_world))
     = [CallGetByID 1]"
  by (simp add: Update_def checkContextCancelled_def call_GetByID_def status_Error_def
       outcome_code_def as_Repository_def PostgresRepository_GetByID_def table_service_def
       table_db_def table_First_def one_world_def great_review_def live_def uint_of_int64_def)

text \<open>
  Claim C6, amended. Under a context that is not done, \<open>Create\<close> and \<open>GetByRating\<close> reject
  a rating outside 1..10 with \<open>InvalidArgument\<close> before any call to the storage port. An
  \<open>Update\<close> whose rating is not 0 and outside 1..10 makes exactly one storage call, the
  read of the record, and no write; when the read finds the record, the outcome is
  \<open>InvalidArgument\<close>.
\<close>

theorem invalid_rating_rejected_before_any_write:
  assumes live: "ctx_Err ctx = None"
  shows "(sint (create_Rating creq) < 1 \<or> sint (create_Rating creq) > 10
            \<longrightarrow> Create tm s ctx creq w
                  = (Inl (Status InvalidArgument ''Rating must be between 1 and 10''), w))
       \<and> (sint (byRating_Rating rreq) < 1 \<or> sint (byRating_Rating rreq) > 10
            \<longrightarrow> GetByRating tm s ctx rreq w
                  = (Inl (Status InvalidArgument ''Rating must be between 1 and 10''), w))
       \<and> (update_Rating ureq \<noteq> 0
            \<and> (sint (update_Rating ureq) < 1 \<or> sint (update_Rating ureq) > 10)
            \<longrightarrow> calls (snd (Update tm s ctx ureq w))
                  = calls w @ [CallGetByID (uint_of_int64 (update_Id ureq))]
              \<and> (\<forall>r0 s1. repo_GetByID (repo s) ctx (uint_of_int64 (update_Id ureq)) (store w)
                             = (Inr r0, s1)
                    \<longrightarrow> Update tm s ctx ureq w
                          = (Inl (Status InvalidArgument ''Rating must be between 1 and 10''),
                             \<lparr>store = s1,
                              calls = calls w @ [CallGetByID (uint_of_int64 (update_Id ureq))]\<rparr>)))"
proof -
  have create: "Create tm s ctx creq w
                  = (Inl (Status InvalidArgument ''Rating must be between 1 and 10''), w)"
    if "sint (create_Rating creq) < 1 \<or> sint (create_Rating creq) > 10"
    using live that by (simp add: Create_def checkContextCancelled_def status_Error_def)
  have list: "GetByRating tm s ctx rreq w
                  = (Inl (Status InvalidArgument ''Rating must be between 1 and 10''), w)"
    if "sint (byRating_Rating rreq) < 1 \<or> sint (byRating_Rating rreq) > 10"
    using live that by (simp add: GetByRating_def checkContextCancelled_def status_Error_def)
  have one_read: "calls (snd (Update tm s ctx ureq w))
                  = calls w @ [CallGetByID (uint_of_int64 (update_Id ureq))]"
    if "update_Rating ureq \<noteq> 0"
      and "sint (update_Rating ureq) < 1 \<or> sint (update_Rating ureq) > 10"
    using live that
    by (simp add: Update_def checkContextCancelled_def call_GetByID_def Let_def
         split: prod.splits sum.splits)
  have update: "Update tm s ctx ureq w
                  = (Inl (Status InvalidArgument ''Rating must be between 1 and 10''),
                     \<lparr>store = s1,
                      calls = calls w @ [CallGetByID (uint_of_int64 (update_Id ureq))]\<rparr>)"
    if "update_Rating ureq \<noteq> 0"
      and "sint (update_Rating ureq) < 1 \<or> sint (update_Rating ureq) > 10"
      and "repo_GetByID (repo s) ctx (uint_of_int64 (update_Id ureq)) (store w) = (Inr r0, s1)"
    for r0 s1
    using live that
    by (simp add: Update_def checkContextCancelled_def call_GetByID_def status_Error_def Let_def)
  show ?thesis using create list one_read update by blast
qed

text \<open>
  On the table holding review 1: a create with rating 0 and a listing by rating 11 leave
  the storage and the calls untouched; an update with rating 11 of review 1 is rejected
  after the read, and of review 2, which is absent, makes the same single call.
\<close>

theorem invalid_rating_rejected_witness:
  "ctx_Err live = None
   \<and> Create text_time table_service live
        \<lparr>create_MediaId = 7, create_UserId = 3, create_Content = ''great'', create_Rating = 0\<rparr>
        one_world
       = (Inl (Status InvalidArgument ''Rating must be between 1 and 10''), one_world)
   \<and> GetByRating text_time table_service live (GetByRatingRequest 11) one_world
       = (Inl (Status InvalidArgument ''Rating must be between 1 and 10''), one_world)
   \<and> Update text_time table_service live
        \<lparr>update_Id = 1, update_Content = ''fine'', update_Rating = 11\<rparr> one_world
       = (Inl (Status InvalidArgument ''Rating must be between 1 and 10''),
          \<lparr>store = store one_world, calls = [CallGetByID 1]\<rparr>)
   \<and> calls (snd (Update text_time table_service live
        \<lparr>update_Id = 2, update_Content = ''fine'', update_Rating = 11\<rparr> one_world))
       = [CallGetByID 2]"
proof -
  have no_calls: "calls one_world = []"
    by (simp add: one_world_def)
  have a: "Create text_time table_service live
        \<lparr>create_MediaId = 7, create_UserId = 3, create_Content = ''great'', create_Rating = 0\<rparr>
        one_world
       = (Inl (Status InvalidArgument ''Rating must be between 1 and 10''), one_world)
     \<and> GetByRating text_time table_service live (GetByRatingRequest 11) one_world
       = (Inl (Status InvalidArgument ''Rating must be between 1 and 10''), one_world)
     \<and> Update text_time table_service live
        \<lparr>update_Id = 1, update_Content = ''fine'', update_Rating = 11\<rparr> one_world
       = (Inl (Status InvalidArgument ''Rating must be between 1 and 10''),
          \<lparr>store = store one_world, calls = [CallGetByID 1]\<rparr>)"
    using invalid_rating_rejected_before_any_write [OF live_is_live, of
        "\<lparr>create_MediaId = 7, create_UserId = 3, create_Content = ''great'', create_Rating = 0\<rparr>"
        text_time table_service one_world "GetByRatingRequest 11"
        "\<lparr>update_Id = 1, update_Content = ''fine'', update_Rating = 11\<rparr>"]
      table_finds_great_review no_calls
    by (simp add: uint_of_int64_numeral)
  have b: "calls (snd (Update text_time table_service live
        \<lparr>update_Id = 2, update_Content = ''fine'', update_Rating = 11\<rparr> one_world))
       = [CallGetByID 2]"
    using invalid_rating_rejected_before_any_write [OF live_is_live, where tm = text_time
        and s = table_service and w = one_world
        and ureq = "\<lparr>update_Id = 2, update_Content = ''fine'', update_Rating = 11\<rparr>"]
      no_calls
    by (simp add: uint_of_int64_numeral)
  show ?thesis using live_is_live a b by simp
qed

section \<open>Create, then read\<close>

text \<open>
  Claim C7. Under a context that is not done, let a create with a rating in 1..10 succeed:
  the port's \<open>Create\<close> leaves the record \<open>g\<close>, with the id and the timestamps the engine
  assigned. Let the port, asked in the storage state right after the create for the id
  of \<open>g\<close>, find a record \<open>r\<close> that is \<open>g\<close> but for the timestamps as stored. Then \<open>GetByID\<close>
  on the id that \<open>Create\<close> returned succeeds, and its record is the one \<open>Create\<close> returned
  with \<open>createdAt\<close> and \<open>updatedAt\<close> rendered from the stored values; it is the very same
  record when the stored timestamps are those of \<open>g\<close>.
\<close>

theorem Create_then_GetByID_round_trip:
  assumes live: "ctx_Err ctx = None"
    and valid: "1 \<le> sint (create_Rating creq)" "sint (create_Rating creq) \<le> 10"
    and insert: "repo_Create (repo s) ctx
                   \<lparr>ID = 0, MediaID = uint_of_int64 (create_MediaId creq),
                    UserID = uint_of_int64 (create_UserId creq), Content = create_Content creq,
                    Rating = int_of_int32 (create_Rating creq),
                    CreatedAt = time_zero tm, UpdatedAt = time_zero tm\<rparr> (store w)
                 = ((None, g), s1)"
    and lookup: "repo_GetByID (repo s) ctx (ID g) s1 = (Inr r, s2)"
    and kept: "r\<lparr>CreatedAt := CreatedAt g, UpdatedAt := UpdatedAt g\<rparr> = g"
  shows "\<exists>made w1 got w2.
           Create tm s ctx creq w = (Inr (CreateReviewResponse made), w1)
         \<and> store w1 = s1
         \<and> GetByID tm s ctx (GetReviewRequest (proto_Id made)) w1
             = (Inr (GetReviewResponse got), w2)
         \<and> got = made\<lparr>proto_CreatedAt := time_Format tm (CreatedAt r) RFC3339,
                        proto_UpdatedAt := time_Format tm (UpdatedAt r) RFC3339\<rparr>
         \<and> (r = g \<longrightarrow> got = made)"
proof -
  let ?made = "ConvertToProtoReview tm g"
  let ?w1 = "\<lparr>store = s1, calls = calls w @ [CallCreate
                   \<lparr>ID = 0, MediaID = uint_of_int64 (create_MediaId creq),
                    UserID = uint_of_int64 (create_UserId creq), Content = create_Content creq,
                    Rating = int_of_int32 (create_Rating creq),
                    CreatedAt = time_zero tm, UpdatedAt = time_zero tm\<rparr>]\<rparr>"
  let ?got = "ConvertToProtoReview tm r"
  let ?w2 = "\<lparr>store = s2, calls = calls ?w1 @ [CallGetByID (ID g)]\<rparr>"
  have made: "Create tm s ctx creq w = (Inr (CreateReviewResponse ?made), ?w1)"
    using live valid insert
    by (simp add: Create_def checkContextCancelled_def call_Create_def)
  have id: "uint_of_int64 (proto_Id ?made) = ID g"
    by (simp add: ConvertToProtoReview_def uint_of_int64_of_uint)
  have got: "GetByID tm s ctx (GetReviewRequest (proto_Id ?made)) ?w1
               = (Inr (GetReviewResponse ?got), ?w2)"
    using live lookup by (simp add: GetByID_def checkContextCancelled_def call_GetByID_def id)
  have fields: "ID r = ID g" "MediaID r = MediaID g" "UserID r = UserID g"
    "Content r = Content g" "Rating r = Rating g"
    using arg_cong [OF kept, of ID] arg_cong [OF kept, of MediaID] arg_cong [OF kept, of UserID]
      arg_cong [OF kept, of Content] arg_cong [OF kept, of Rating]
    by simp_all
  have same: "?got = ?made\<lparr>proto_CreatedAt := time_Format tm (CreatedAt r) RFC3339,
                             proto_UpdatedAt := time_Format tm (UpdatedAt r) RFC3339\<rparr>"
    using fields by (simp add: ConvertToProtoReview_def)
  from made got same show ?thesis by auto
qed

text \<open>
  On the empty table: creating the review (media 7, user 3, "great", rating 9) returns it
  with id 1 and the engine's timestamps, and reading id 1 right after returns the same
  record.
\<close>

theorem Create_then_GetByID_witness:
  "ctx_Err live = None
   \<and> (\<exists>made w1 w2.
        Create text_time table_service live
           \<lparr>create_MediaId = 7, create_UserId = 3, create_Content = ''great'', create_Rating = 9\<rparr>
           empty_world = (Inr (CreateReviewResponse made), w1)
      \<and> proto_Id made = 1
      \<and> GetByID text_time table_service live (GetReviewRequest (proto_Id made)) w1
          = (Inr (GetReviewResponse made), w2))"
proof -
  let ?creq = "\<lparr>create_MediaId = 7, create_UserId = 3, create_Content = ''great'',
                 create_Rating = 9\<rparr>"
  let ?s1 = "\<lparr>rows = [great_review], next_id = 2, clock = ''2024-05-01T12:00:00Z''\<rparr>"
  have valid: "1 \<le> sint (create_Rating ?creq)" "sint (create_Rating ?creq) \<le> 10"
    by simp_all
  have insert: "repo_Create (repo table_service) live
                   \<lparr>ID = 0, MediaID = uint_of_int64 (create_MediaId ?creq),
                    UserID = uint_of_int64 (create_UserId ?creq), Content = create_Content ?creq,
                    Rating = int_of_int32 (create_Rating ?creq),
                    CreatedAt = time_zero text_time, UpdatedAt = time_zero text_time\<rparr>
                   (store empty_world)
                 = ((None, great_review), ?s1)"
    using table_Create_great_review by (simp add: uint_of_int64_def int_of_int32_def)
  have lookup: "repo_GetByID (repo table_service) live (ID great_review) ?s1
                  = (Inr great_review, ?s1)"
    using table_finds_created_review by (simp add: great_review_def)
  have kept: "great_review\<lparr>CreatedAt := CreatedAt great_review,
                           UpdatedAt := UpdatedAt great_review\<rparr> = great_review"
    by simp
  obtain made w1 got w2 where
    c: "Create text_time table_service live ?creq empty_world
          = (Inr (CreateReviewResponse made), w1)"
    and g: "GetByID text_time table_service live (GetReviewRequest (proto_Id made)) w1
          = (Inr (GetReviewResponse got), w2)"
    and same: "great_review = great_review \<longrightarrow> got = made"
    using Create_then_GetByID_round_trip [OF live_is_live valid insert lookup kept] by blast
  have "Create text_time table_service live ?creq empty_world
          = (Inr (CreateReviewResponse (ConvertToProtoReview text_time great_review)),
             \<lparr>store = ?s1, calls = calls empty_world @ [CallCreate
                   \<lparr>ID = 0, MediaID = uint_of_int64 (create_MediaId ?creq),
                    UserID = uint_of_int64 (create_UserId ?creq), Content = create_Content ?creq,
                    Rating = int_of_int32 (create_Rating ?creq),
                    CreatedAt = time_zero text_time, UpdatedAt = time_zero text_time\<rparr>]\<rparr>)"
    using live_is_live insert
    by (simp add: Create_def checkContextCancelled_def call_Create_def)
  with c have "made = ConvertToProtoReview text_time great_review"
    by simp
  then have one: "proto_Id made = 1"
    by (simp add: ConvertToProtoReview_def great_review_def int64_of_uint_def)
  from c g same one live_is_live show ?thesis by auto
qed

section \<open>Lists with no rows\<close>

text \<open>
  Claim C8. Under a context that is not done, when the port returns no rows and no error,
  each of \<open>GetAll\<close>, \<open>GetByRating\<close> (with a rating in 1..10), \<open>GetByUser\<close> and \<open>GetByMedia\<close>
  succeeds with the empty sequence; the outcome is no error.
\<close>

theorem empty_result_is_success:
  assumes live: "ctx_Err ctx = None"
  shows "(\<forall>s1. repo_GetAll (repo s) ctx (store w) = (Inr [], s1)
            \<longrightarrow> fst (GetAll tm s ctx areq w) = Inr (GetAllReviewsResponse []))
       \<and> (\<forall>s1. 1 \<le> sint (byRating_Rating rreq) \<and> sint (byRating_Rating rreq) \<le> 10
              \<and> repo_GetByRating (repo s) ctx (int_of_int32 (byRating_Rating rreq)) (store w)
                  = (Inr [], s1)
            \<longrightarrow> fst (GetByRating tm s ctx rreq w) = Inr (GetByRatingResponse []))
       \<and> (\<forall>s1. repo_GetByUser (repo s) ctx (uint_of_int64 (byUser_UserId usreq)) (store w)
                  = (Inr [], s1)
            \<longrightarrow> fst (GetByUser tm s ctx usreq w) = Inr (GetByUserResponse []))
       \<and> (\<forall>s1. repo_GetByMedia (repo s) ctx (uint_of_int64 (byMedia_MediaId mreq)) (store w)
                  = (Inr [], s1)
            \<longrightarrow> fst (GetByMedia tm s ctx mreq w) = Inr (GetByMediaResponse []))"
proof -
  have a: "fst (GetAll tm s ctx areq w) = Inr (GetAllReviewsResponse [])"
    if "repo_GetAll (repo s) ctx (store w) = (Inr [], s1)" for s1
    using live that by (simp add: GetAll_def checkContextCancelled_def call_GetAll_def)
  have b: "fst (GetByRating tm s ctx rreq w) = Inr (GetByRatingResponse [])"
    if "1 \<le> sint (byRating_Rating rreq)" "sint (byRating_Rating rreq) \<le> 10"
      "repo_GetByRating (repo s) ctx (int_of_int32 (byRating_Rating rreq)) (store w)
         = (Inr [], s1)" for s1
    using live that
    by (simp add: GetByRating_def checkContextCancelled_def call_GetByRating_def)
  have c: "fst (GetByUser tm s ctx usreq w) = Inr (GetByUserResponse [])"
    if "repo_GetByUser (repo s) ctx (uint_of_int64 (byUser_UserId usreq)) (store w)
          = (Inr [], s1)" for s1
    using live that by (simp add: GetByUser_def checkContextCancelled_def call_GetByUser_def)
  have d: "fst (GetByMedia tm s ctx mreq w) = Inr (GetByMediaResponse [])"
    if "repo_GetByMedia (repo s) ctx (uint_of_int64 (byMedia_MediaId mreq)) (store w)
          = (Inr [], s1)" for s1
    using live that by (simp add: GetByMedia_def checkContextCancelled_def call_GetByMedia_def)
  show ?thesis using a b c d by blast
qed

text \<open>On the empty table, the four lists are empty and no error.\<close>

theorem empty_result_is_success_witness:
  "ctx_Err live = None
   \<and> repo_GetAll (repo table_service) live (store empty_world) = (Inr [], store empty_world)
   \<and> fst (GetAll text_time table_service live GetAllReviewsRequest empty_world)
       = Inr (GetAllReviewsResponse [])
   \<and> fst (GetByRating text_time table_service live (GetByRatingRequest 5) empty_world)
       = Inr (GetByRatingResponse [])
   \<and> fst (GetByUser text_time table_service live (GetByUserRequest 3) empty_world)
       = Inr (GetByUserResponse [])
   \<and> fst (GetByMedia text_time table_service live (GetByMediaRequest 7) empty_world)
       = Inr (GetByMediaResponse [])"
  using empty_result_is_success [OF live_is_live, of table_service empty_world text_time
      GetAllReviewsRequest "GetByRatingRequest 5" "GetByUserRequest 3" "GetByMediaRequest 7"]
    table_empty_lists live_is_live
  by simp

section \<open>The wire translation\<close>



section \<open>What Create validates\<close>

text \<open>
  Claim C10. Under a context that is not done, for every create request whose rating is in
  1..10, whatever its media id, user id and content, \<open>Create\<close> passes the request to the
  storage port: it calls the port's \<open>Create\<close>, once and with no other storage call, on the
  record built from the request's fields as they are, and what the port does decides the
  result. The storage is left as the port's \<open>Create\<close> leaves it; the response is the
  translation of the record as the port leaves it when the port returns no error, and
  \<open>Internal\<close> with the port's error otherwise. The outcome is never \<open>InvalidArgument\<close>. In
  particular a request with empty content reaches the port with empty content.
\<close>

theorem Create_validates_only_the_rating:
  assumes live: "ctx_Err ctx = None"
    and valid: "1 \<le> sint (create_Rating creq)" "sint (create_Rating creq) \<le> 10"
  shows "calls (snd (Create tm s ctx creq w)) =
           calls w @ [CallCreate
              \<lparr>ID = 0, MediaID = uint_of_int64 (create_MediaId creq),
               UserID = uint_of_int64 (create_UserId creq), Content = create_Content creq,
               Rating = int_of_int32 (create_Rating creq),
               CreatedAt = time_zero tm, UpdatedAt = time_zero tm\<rparr>]
       \<and> outcome_code (Create tm s ctx creq w) \<noteq> Some InvalidArgument
       \<and> (\<forall>res g s1.
             repo_Create (repo s) ctx
               \<lparr>ID = 0, MediaID = uint_of_int64 (create_MediaId creq),
                UserID = uint_of_int64 (create_UserId creq), Content = create_Content creq,
                Rating = int_of_int32 (create_Rating creq),
                CreatedAt = time_zero tm, UpdatedAt = time_zero tm\<rparr> (store w)
              = ((res, g), s1)
           \<longrightarrow> Create tm s ctx creq w =
                 (case res of
                    None \<Rightarrow> Inr (CreateReviewResponse (ConvertToProtoReview tm g))
                  | Some err \<Rightarrow>
                      Inl (Status Internal (''Failed to create review: '' @ error_Error err)),
                  \<lparr>store = s1,
                   calls = calls w @ [CallCreate
                     \<lparr>ID = 0, MediaID = uint_of_int64 (create_MediaId creq),
                      UserID = uint_of_int64 (create_UserId creq),
                      Content = create_Content creq,
                      Rating = int_of_int32 (create_Rating creq),
                      CreatedAt = time_zero tm, UpdatedAt = time_zero tm\<rparr>]\<rparr>))"
proof -
  let ?g = "\<lparr>ID = 0, MediaID = uint_of_int64 (create_MediaId creq),
             UserID = uint_of_int64 (create_UserId creq), Content = create_Content creq,
             Rating = int_of_int32 (create_Rating creq),
             CreatedAt = time_zero tm, UpdatedAt = time_zero tm\<rparr>"
  have trace: "calls (snd (Create tm s ctx creq w)) = calls w @ [CallCreate ?g]
       \<and> outcome_code (Create tm s ctx creq w) \<noteq> Some InvalidArgument"
    using live valid
    by (simp add: Create_def checkContextCancelled_def call_Create_def status_Errorf_def
         outcome_code_def Let_def split: prod.splits option.splits)
  have passed: "Create tm s ctx creq w =
                 (case res of
                    None \<Rightarrow> Inr (CreateReviewResponse (ConvertToProtoReview tm g))
                  | Some err \<Rightarrow>
                      Inl (Status Internal (''Failed to create review: '' @ error_Error err)),
                  \<lparr>store = s1, calls = calls w @ [CallCreate ?g]\<rparr>)"
    if "repo_Create (repo s) ctx ?g (store w) = ((res, g), s1)" for res g s1
    using live valid that
    by (cases res)
       (simp_all add: Create_def checkContextCancelled_def call_Create_def status_Errorf_def)
  show ?thesis using trace passed by blast
qed

text \<open>
  On the empty table: a create with media id 0, user id -1, empty content and rating 1
  reaches the port, with the user id as \<open>2^64 - 1\<close>; the table then holds the row, with
  empty content and the id and timestamps the engine gave it, and the response is its
  translation. On the read-only table the same request reaches the port, the table stays
  as it was, and the outcome is \<open>Internal\<close>.
\<close>

theorem Create_validates_only_the_rating_witness:
  "ctx_Err live = None
   \<and> Create text_time table_service live
        \<lparr>create_MediaId = 0, create_UserId = - 1, create_Content = [], create_Rating = 1\<rparr>
        empty_world
       = (Inr (CreateReviewResponse
                \<lparr>proto_Id = 1, proto_MediaId = 0, proto_UserId = - 1, proto_Content = [],
                 proto_Rating = 1, proto_CreatedAt = ''2024-05-01T12:00:00Z'',
                 proto_UpdatedAt = ''2024-05-01T12:00:00Z''\<rparr>),
          \<lparr>store =
             \<lparr>rows = [\<lparr>ID = 1, MediaID = 0, UserID = 18446744073709551615, Content = [],
                        Rating = 1, CreatedAt = ''2024-05-01T12:00:00Z'',
                        UpdatedAt = ''2024-05-01T12:00:00Z''\<rparr>],
              next_id = 2, clock = ''2024-05-01T12:00:00Z''\<rparr>,
           calls = [CallCreate \<lparr>ID = 0, MediaID = 0, UserID = 18446744073709551615,
                      Content = [], Rating = 1, CreatedAt = ''0001-01-01T00:00:00Z'',
                      UpdatedAt = ''0001-01-01T00:00:00Z''\<rparr>]\<rparr>)
   \<and> outcome_code (Create text_time table_service live
        \<lparr>create_MediaId = 0, create_UserId = - 1, create_Content = [], create_Rating = 1\<rparr>
        empty_world) \<noteq> Some InvalidArgument
   \<and> Create text_time readonly_service live
        \<lparr>create_MediaId = 0, create_UserId = - 1, create_Content = [], create_Rating = 1\<rparr>
        empty_world
       = (Inl (Status Internal ''Failed to create review: read-only transaction''),
          \<lparr>store = store empty_world,
           calls = [CallCreate \<lparr>ID = 0, MediaID = 0, UserID = 18446744073709551615,
                      Content = [], Rating = 1, CreatedAt = ''0001-01-01T00:00:00Z'',
                      UpdatedAt = ''0001-01-01T00:00:00Z''\<rparr>]\<rparr>)"
proof -
  let ?creq = "\<lparr>create_MediaId = 0, create_UserId = - 1, create_Content = [],
                 create_Rating = 1\<rparr>"
  let ?g = "\<lparr>ID = 0, MediaID = 0, UserID = 18446744073709551615, Content = [],
             Rating = 1, CreatedAt = ''0001-01-01T00:00:00Z'',
             UpdatedAt = ''0001-01-01T00:00:00Z''\<rparr> :: string GormReview"
  let ?row = "\<lparr>ID = 1, MediaID = 0, UserID = 18446744073709551615, Content = [],
               Rating = 1, CreatedAt = ''2024-05-01T12:00:00Z'',
               UpdatedAt = ''2024-05-01T12:00:00Z''\<rparr> :: string GormReview"
  have valid: "1 \<le> sint (create_Rating ?creq)" "sint (create_Rating ?creq) \<le> 10"
    by simp_all
  have no_calls: "calls empty_world = []"
    by (simp add: empty_world_def)
  have args: "uint_of_int64 0 = 0" "uint_of_int64 (- 1) = 18446744073709551615"
    "int_of_int32 1 = 1" "time_zero text_time = ''0001-01-01T00:00:00Z''"
    by (simp_all add: uint_of_int64_def int_of_int32_def text_time_def)
  have inserted: "repo_Create (repo table_service) live ?g (store empty_world)
                    = ((None, ?row),
                       \<lparr>rows = [?row], next_id = 2, clock = ''2024-05-01T12:00:00Z''\<rparr>)"
    by (simp add: adapter_defs table_defs live_def)
  have refused: "repo_Create (repo readonly_service) live ?g (store empty_world)
                    = ((Some (Other ''read-only transaction''), ?g), store empty_world)"
    by (simp add: adapter_defs failing_defs live_def)
  have shown: "ConvertToProtoReview text_time ?row
      = \<lparr>proto_Id = 1, proto_MediaId = 0, proto_UserId = - 1, proto_Content = [],
         proto_Rating = 1, proto_CreatedAt = ''2024-05-01T12:00:00Z'',
         proto_UpdatedAt = ''2024-05-01T12:00:00Z''\<rparr>"
    by (simp add: ConvertToProtoReview_def text_time_def int64_of_uint_def int32_of_int_def)
  have a: "Create text_time table_service live ?creq empty_world
       = (Inr (CreateReviewResponse (ConvertToProtoReview text_time ?row)),
          \<lparr>store = \<lparr>rows = [?row], next_id = 2, clock = ''2024-05-01T12:00:00Z''\<rparr>,
           calls = [CallCreate ?g]\<rparr>)
     \<and> outcome_code (Create text_time table_service live ?creq empty_world)
          \<noteq> Some InvalidArgument"
    using args no_calls inserted
      Create_validates_only_the_rating [OF live_is_live valid, of text_time table_service
        empty_world]
    by (simp add: outcome_code_def)
  have b: "Create text_time readonly_service live ?creq empty_world
       = (Inl (Status Internal ''Failed to create review: read-only transaction''),
          \<lparr>store = store empty_world, calls = [CallCreate ?g]\<rparr>)"
    using args no_calls refused
      Create_validates_only_the_rating [OF live_is_live valid, of text_time readonly_service
        empty_world]
    by simp
  show ?thesis using live_is_live shown a b by (simp add: outcome_code_def)
qed

section \<open>The scenario of the specification\<close>

text \<open>
  The model runs the scenario as the specification tells it: the created review has id 1
  and rating 9, reading it returns the same record, the update with empty content and
  rating 5 keeps the content and sets the rating, the list by rating 5 holds review 1, the
  delete succeeds, and the last read is \<open>NotFound\<close>.
\<close>

lemma scenario_runs:
  "scenario =
     (Inr (CreateReviewResponse
        \<lparr>proto_Id = 1, proto_MediaId = 7, proto_UserId = 3, proto_Content = ''great'',
         proto_Rating = 9, proto_CreatedAt = ''2024-05-01T12:00:00Z'',
         proto_UpdatedAt = ''2024-05-01T12:00:00Z''\<rparr>),
      Inr (GetReviewResponse
        \<lparr>proto_Id = 1, proto_MediaId = 7, proto_UserId = 3, proto_Content = ''great'',
         proto_Rating = 9, proto_CreatedAt = ''2024-05-01T12:00:00Z'',
         proto_UpdatedAt = ''2024-05-01T12:00:00Z''\<rparr>),
      Inr (UpdateReviewResponse
        \<lparr>proto_Id = 1, proto_MediaId = 7, proto_UserId = 3, proto_Content = ''great'',
         proto_Rating = 5, proto_CreatedAt = ''2024-05-01T12:00:00Z'',
         proto_UpdatedAt = ''2024-05-01T12:00:00Z''\<rparr>),
      Inr (GetByRatingResponse
        [\<lparr>proto_Id = 1, proto_MediaId = 7, proto_UserId = 3, proto_Content = ''great'',
          proto_Rating = 5, proto_CreatedAt = ''2024-05-01T12:00:00Z'',
          proto_UpdatedAt = ''2024-05-01T12:00:00Z''\<rparr>]),
      Inr (DeleteReviewResponse True),
      Inl (Status NotFound ''Review not found: review not found''),
      [CallCreate \<lparr>ID = 0, MediaID = 7, UserID = 3, Content = ''great'', Rating = 9,
         CreatedAt = ''0001-01-01T00:00:00Z'', UpdatedAt = ''0001-01-01T00:00:00Z''\<rparr>,
       CallGetByID 1, CallGetByID 1,
       CallUpdate \<lparr>ID = 1, MediaID = 7, UserID = 3, Content = ''great'', Rating = 5,
         CreatedAt = ''2024-05-01T12:00:00Z'', UpdatedAt = ''2024-05-01T12:00:00Z''\<rparr>,
       CallGetByRating 5, CallGetByID 1, CallDelete 1, CallGetByID 1])"
  by (simp add: scenario_def Create_def GetByID_def Update_def Delete_def GetByRating_def
       checkContextCancelled_def status_Error_def status_Errorf_def
       call_Create_def call_GetByID_def call_Update_def call_Delete_def call_GetByRating_def
       ConvertToProtoReview_def adapter_defs table_service_def table_db_def table_Create_def
       table_First_def table_Save_def table_Delete_def table_Find_def text_time_def
       empty_world_def Let_def live_def
       uint_of_int64_def int64_of_uint_def int_of_int32_def int32_of_int_def)

end
